theory Spec2Isabelle
  imports Main
begin

section \<open>The compare-acl command of uhppoted-acl-s3\<close>

text \<open>
  The repository holds two revisions of the command: \<^verbatim>\<open>commands/compare_acl.go\<close> and
  an earlier one (\<^verbatim>\<open>unnamed/part_000\<close>). Both are embedded here; the names of the earlier
  revision carry the suffix \<open>_p0\<close>.

  Functions the command calls but which are defined elsewhere (the package-level
  \<^verbatim>\<open>fetchHTTP\<close>, \<^verbatim>\<open>fetchS3\<close>, \<^verbatim>\<open>untar\<close>, \<^verbatim>\<open>verify\<close>, \<^verbatim>\<open>report\<close>, \<^verbatim>\<open>sign\<close>, \<^verbatim>\<open>targz\<close>,
  \<^verbatim>\<open>storeHTTP\<close>, \<^verbatim>\<open>storeS3\<close>, \<^verbatim>\<open>getDevices\<close>, and the library calls \<^verbatim>\<open>url.Parse\<close>,
  \<^verbatim>\<open>conf.Load\<close>, \<^verbatim>\<open>acl.ParseTSV\<close>, \<^verbatim>\<open>acl.GetACL\<close>, \<^verbatim>\<open>os.Create\<close>, \<^verbatim>\<open>time.Now\<close>,
  \<^verbatim>\<open>filepath.Join\<close>) are parameters of the model, collected in the record \<open>world\<close>:
  each gives the outcome of the call as a function of its arguments.
\<close>

subsection \<open>Strings\<close>

text \<open>
  A Go string on which the command calls the Unicode-aware \<^verbatim>\<open>strings.TrimSpace\<close> is
  modelled by the sequence of code points its UTF-8 decoding yields. File contents and
  rendered text are byte strings.
\<close>

type_synonym rune = nat
type_synonym gostring = "rune list"
type_synonym bytes = string

definition gostr :: "string \<Rightarrow> gostring" where
  "gostr s = map of_char s"

text \<open>\<^verbatim>\<open>unicode.IsSpace\<close>: the code points with the Unicode property White_Space.\<close>

definition IsSpace :: "rune \<Rightarrow> bool" where
  "IsSpace r \<longleftrightarrow>
     r = 0x09 \<or> r = 0x0A \<or> r = 0x0B \<or> r = 0x0C \<or> r = 0x0D \<or> r = 0x20 \<or>
     r = 0x85 \<or> r = 0xA0 \<or> r = 0x1680 \<or> (0x2000 \<le> r \<and> r \<le> 0x200A) \<or>
     r = 0x2028 \<or> r = 0x2029 \<or> r = 0x202F \<or> r = 0x205F \<or> r = 0x3000"

definition TrimSpace :: "gostring \<Rightarrow> gostring" where
  "TrimSpace s = rev (dropWhile IsSpace (rev (dropWhile IsSpace s)))"

definition HasPrefix :: "gostring \<Rightarrow> gostring \<Rightarrow> bool" where
  "HasPrefix s p \<longleftrightarrow> take (length p) s = p"

subsection \<open>Data\<close>

datatype error =
    RequiresURL                 \<comment> \<open>"compare-acl requires a URL for the authoritative ACL file ..."\<close>
  | InvalidURL gostring error   \<comment> \<open>"Invalid ACL file URL '%s' (%w)"\<close>
  | ConfigLoad error            \<comment> \<open>"WARN  Could not load configuration (%v)"\<close>
  | OOOPS                       \<comment> \<open>"OOOPS"\<close>
  | External string             \<comment> \<open>an error returned by a function outside the command\<close>

type_synonym device_id = nat
type_synonym devices = "device_id list"
type_synonym IDevice = nat
type_synonym 'c ACL = "(device_id \<times> 'c list) list"

datatype logger = Ticker gostring int | StdoutLogger

datatype sink = Stdout | File gostring | Builder

datatype logline =
    Fetching gostring              \<comment> \<open>"Fetching ACL from %v"\<close>
  | Fetched gostring nat           \<comment> \<open>"Fetched ACL from %v (%d bytes)"\<close>
  | Extracted gostring nat nat     \<comment> \<open>"Extracted ACL from %v: %v bytes, signature: %v bytes"\<close>
  | Retrieved device_id nat        \<comment> \<open>"%v  Retrieved %v records"\<close>
  | Generating                     \<comment> \<open>"Generating ACL 'diff' report"\<close>
  | Writing gostring               \<comment> \<open>"Writing 'diff' report to %v"\<close>
  | Uploading                      \<comment> \<open>"Uploading ACL 'diff' report"\<close>
  | Tarred nat nat nat             \<comment> \<open>"tar'd report (%v bytes) and signature (%v bytes): %v bytes"\<close>
  | Uploaded gostring              \<comment> \<open>"Uploaded to %v"\<close>
  | Foreign string                 \<comment> \<open>a line written by a callee that was handed the logger\<close>

text \<open>The calls the command makes to the outside, with their arguments.\<close>

datatype call =
    CallUrlParse gostring
  | CallConfLoad gostring
  | CallGetDevices
  | CallFetchHTTP gostring
  | CallFetchS3 gostring gostring gostring
  | CallUntar bytes
  | CallVerify gostring bytes bytes gostring
  | CallParseTSV bytes
  | CallGetACL
  | CallCreate gostring
  | CallReport sink
  | CallReport_p0 gostring
  | CallSign bytes gostring
  | CallTargz "(gostring \<times> bytes) list"
  | CallStoreHTTP gostring bytes
  | CallStoreS3 gostring bytes

text \<open>\<^verbatim>\<open>type CompareACL struct\<close> of \<^verbatim>\<open>compare_acl.go\<close>.\<close>

record CompareACL =
  acl :: gostring
  rpt :: gostring
  config :: gostring
  workdir :: gostring
  keysdir :: gostring
  keyfile :: gostring
  credentials :: gostring
  region :: gostring
  logFile :: gostring
  logFileSize :: int
  template :: string
  noverify :: bool
  noreport :: bool
  nolog :: bool
  debug :: bool

text \<open>What the command can change: the lines handed to the logger, the local files, the
  bytes the report step printed on standard output, the blobs stored remotely; and the
  calls made so far.\<close>

record state =
  logged :: "(logger \<times> logline) list"
  files :: "gostring \<rightharpoonup> bytes"
  stdout :: bytes
  stored :: "(gostring \<times> bytes) list"
  calls :: "call list"

record 'c world =
  url_Parse :: "gostring \<Rightarrow> error + gostring"
    \<comment> \<open>\<^verbatim>\<open>url.Parse\<close>, the result read back with \<^verbatim>\<open>uri.String()\<close>\<close>
  conf_Load :: "gostring \<Rightarrow> error option"
  getDevices :: "gostring \<Rightarrow> bool \<Rightarrow> IDevice \<times> devices"
  fetchHTTP :: "gostring \<Rightarrow> string list \<times> (error + bytes)"
  fetchS3 :: "gostring \<Rightarrow> gostring \<Rightarrow> gostring \<Rightarrow> string list \<times> (error + bytes)"
  untar :: "bytes \<Rightarrow> bytes \<times> bytes \<times> gostring \<times> error option"
  verify :: "gostring \<Rightarrow> bytes \<Rightarrow> bytes \<Rightarrow> gostring \<Rightarrow> error option"
  ParseTSV :: "bytes \<Rightarrow> devices \<Rightarrow> error + 'c ACL"
  GetACL :: "IDevice \<Rightarrow> devices \<Rightarrow> error + 'c ACL"
  report :: "'c ACL \<Rightarrow> 'c ACL \<Rightarrow> string \<Rightarrow> sink \<Rightarrow> bytes \<times> error option"
    \<comment> \<open>the bytes written to the sink, and the error returned\<close>
  report_p0 :: "'c ACL \<Rightarrow> 'c ACL \<Rightarrow> gostring \<Rightarrow> string list \<times> (gostring \<times> bytes) option"
    \<comment> \<open>the four-argument \<^verbatim>\<open>report(current, list, workdir, log)\<close> of the earlier revision:
        the lines it logs and the file it leaves\<close>
  os_Create :: "gostring \<Rightarrow> error option"
  timeNow_report :: gostring
  timeNow_upload :: gostring
  filepath_Join :: "gostring \<Rightarrow> gostring \<Rightarrow> gostring"
  sign :: "bytes \<Rightarrow> gostring \<Rightarrow> error + bytes"
  targz :: "(gostring \<times> bytes) list \<Rightarrow> error + bytes"
  storeHTTP :: "gostring \<Rightarrow> bytes \<Rightarrow> error option"
  storeS3 :: "gostring \<Rightarrow> gostring \<Rightarrow> gostring \<Rightarrow> bytes \<Rightarrow> error option"

subsection \<open>Effects\<close>

definition Printf :: "logger \<Rightarrow> logline \<Rightarrow> state \<Rightarrow> state" where
  "Printf lg l s = s\<lparr>logged := logged s @ [(lg, l)]\<rparr>"

definition foreign :: "logger \<Rightarrow> string list \<Rightarrow> state \<Rightarrow> state" where
  "foreign lg ls s = s\<lparr>logged := logged s @ map (\<lambda>l. (lg, Foreign l)) ls\<rparr>"

definition called :: "call \<Rightarrow> state \<Rightarrow> state" where
  "called c s = s\<lparr>calls := calls s @ [c]\<rparr>"

text \<open>Writing to an \<^verbatim>\<open>io.Writer\<close>: standard output, an open file, or a string builder
  (whose content is the returned text, no state changes).\<close>

definition write_sink :: "sink \<Rightarrow> bytes \<Rightarrow> state \<Rightarrow> state" where
  "write_sink k out s =
     (case k of
        Stdout \<Rightarrow> s\<lparr>stdout := stdout s @ out\<rparr>
      | File f \<Rightarrow> s\<lparr>files := (files s)(f \<mapsto> (case files s f of None \<Rightarrow> [] | Some old \<Rightarrow> old) @ out)\<rparr>
      | Builder \<Rightarrow> s)"

text \<open>The package-level \<^verbatim>\<open>report(current, list, template, w)\<close>: returns its error and the
  text written.\<close>

definition do_report ::
  "'c world \<Rightarrow> 'c ACL \<Rightarrow> 'c ACL \<Rightarrow> string \<Rightarrow> sink \<Rightarrow> state \<Rightarrow> (error option \<times> bytes) \<times> state" where
  "do_report w current list tmpl k s =
     (let (out, err) = report w current list tmpl k
      in ((err, out), write_sink k out (called (CallReport k) s)))"

text \<open>\<^verbatim>\<open>os.Create\<close>: on success the file exists and is empty.\<close>

definition do_Create :: "'c world \<Rightarrow> gostring \<Rightarrow> state \<Rightarrow> error option \<times> state" where
  "do_Create w file s =
     (let s1 = called (CallCreate file) s
      in case os_Create w file of
           Some err \<Rightarrow> (Some err, s1)
         | None \<Rightarrow> (None, s1\<lparr>files := (files s1)(file \<mapsto> [])\<rparr>))"

subsection \<open>The command (\<^verbatim>\<open>compare_acl.go\<close>)\<close>

definition c_fetchHTTP ::
  "CompareACL \<Rightarrow> 'c world \<Rightarrow> gostring \<Rightarrow> logger \<Rightarrow> state \<Rightarrow> (error + bytes) \<times> state" where
  "c_fetchHTTP c w url lg s =
     (let (ls, r) = fetchHTTP w url;
          s1 = foreign lg ls (called (CallFetchHTTP url) s)
      in case r of
           Inl err \<Rightarrow> (Inl err, s1)
         | Inr a \<Rightarrow> (Inr a, Printf lg (Fetched url (length a)) s1))"

definition c_fetchS3 ::
  "CompareACL \<Rightarrow> 'c world \<Rightarrow> gostring \<Rightarrow> logger \<Rightarrow> state \<Rightarrow> (error + bytes) \<times> state" where
  "c_fetchS3 c w url lg s =
     (let (ls, r) = fetchS3 w url (credentials c) (region c);
          s1 = foreign lg ls (called (CallFetchS3 url (credentials c) (region c)) s)
      in case r of
           Inl err \<Rightarrow> (Inl err, s1)
         | Inr a \<Rightarrow> (Inr a, Printf lg (Fetched url (length a)) s1))"

definition c_storeHTTP :: "CompareACL \<Rightarrow> 'c world \<Rightarrow> gostring \<Rightarrow> bytes \<Rightarrow> state \<Rightarrow> error option \<times> state" where
  "c_storeHTTP c w url r s =
     (let s1 = called (CallStoreHTTP url r) s
      in case storeHTTP w url r of
           Some err \<Rightarrow> (Some err, s1)
         | None \<Rightarrow> (None, s1\<lparr>stored := stored s1 @ [(url, r)]\<rparr>))"

definition c_storeS3 :: "CompareACL \<Rightarrow> 'c world \<Rightarrow> gostring \<Rightarrow> bytes \<Rightarrow> state \<Rightarrow> error option \<times> state" where
  "c_storeS3 c w uri r s =
     (let s1 = called (CallStoreS3 uri r) s
      in case storeS3 w uri (credentials c) (region c) r of
           Some err \<Rightarrow> (Some err, s1)
         | None \<Rightarrow> (None, s1\<lparr>stored := stored s1 @ [(uri, r)]\<rparr>))"

text \<open>\<^verbatim>\<open>func (c *CompareACL) report\<close>. In the \<^verbatim>\<open>noreport\<close> branch the value returned by
  \<^verbatim>\<open>report\<close> is dropped and the method falls through to \<^verbatim>\<open>return nil\<close>.\<close>

definition c_report ::
  "CompareACL \<Rightarrow> 'c world \<Rightarrow> 'c ACL \<Rightarrow> 'c ACL \<Rightarrow> logger \<Rightarrow> state \<Rightarrow> error option \<times> state" where
  "c_report c w current list lg s =
     (let s1 = Printf lg Generating s
      in if noreport c then
           (let (_, s2) = do_report w current list (template c) Stdout s1
            in (None, s2))
         else
           (let filename = timeNow_report w;
                file = filepath_Join w (workdir c) filename
            in case do_Create w file s1 of
                 (Some err, s2) \<Rightarrow> (Some err, s2)
               | (None, s2) \<Rightarrow>
                   (let s3 = Printf lg (Writing file) s2;
                        ((err, _), s4) = do_report w current list (template c) (File file) s3
                    in (err, s4))))"

text \<open>\<^verbatim>\<open>func (c *CompareACL) upload\<close>\<close>

definition c_upload ::
  "CompareACL \<Rightarrow> 'c world \<Rightarrow> 'c ACL \<Rightarrow> 'c ACL \<Rightarrow> logger \<Rightarrow> state \<Rightarrow> error option \<times> state" where
  "c_upload c w current list lg s =
     (let s1 = Printf lg Uploading s
      in case do_report w current list (template c) Builder s1 of
           ((Some err, _), s2) \<Rightarrow> (Some err, s2)
         | ((None, text), s2) \<Rightarrow>
             (let filename = timeNow_upload w;
                  rpt' = text;
                  s3 = called (CallSign rpt' (keyfile c)) s2
              in case sign w rpt' (keyfile c) of
                   Inl err \<Rightarrow> (Some err, s3)
                 | Inr signature \<Rightarrow>
                     (let fs = [(filename, rpt'), (gostr ''signature'', signature)];
                          s4 = called (CallTargz fs) s3
                      in case targz w fs of
                           Inl err \<Rightarrow> (Some err, s4)
                         | Inr b \<Rightarrow>
                             (let s5 = Printf lg (Tarred (length rpt') (length signature) (length b)) s4;
                                  f = (if HasPrefix (rpt c) (gostr ''s3://'') then c_storeS3 else c_storeHTTP)
                              in case f c w (rpt c) b s5 of
                                   (Some err, s6) \<Rightarrow> (Some err, s6)
                                 | (None, s6) \<Rightarrow> (None, Printf lg (Uploaded (rpt c)) s6)))))"

text \<open>The loop \<^verbatim>\<open>for k, l := range list\<close> logs one line per device. Go ranges over a
  map in no fixed order; the lines are logged here in the order of the list.\<close>

fun log_retrieved :: "logger \<Rightarrow> 'c ACL \<Rightarrow> state \<Rightarrow> state" where
  "log_retrieved lg [] s = s"
| "log_retrieved lg ((k, l) # rest) s = log_retrieved lg rest (Printf lg (Retrieved k (length l)) s)"

text \<open>\<^verbatim>\<open>func (c *CompareACL) execute\<close>. The error returned by \<^verbatim>\<open>untar\<close> is assigned
  to \<^verbatim>\<open>err\<close> and not read before \<^verbatim>\<open>acl.ParseTSV\<close> assigns \<^verbatim>\<open>err\<close> again.\<close>

definition execute ::
  "CompareACL \<Rightarrow> 'c world \<Rightarrow> IDevice \<Rightarrow> gostring \<Rightarrow> devices \<Rightarrow> logger \<Rightarrow> state \<Rightarrow> error option \<times> state" where
  "execute c w u uri devs lg s =
     (let s1 = Printf lg (Fetching uri) s;
          f = (if HasPrefix uri (gostr ''s3://'') then c_fetchS3 else c_fetchHTTP)
      in case f c w uri lg s1 of
           (Inl err, s2) \<Rightarrow> (Some err, s2)
         | (Inr b, s2) \<Rightarrow>
             (let (tsv, signature, uname, err) = untar w b;
                  s3 = Printf lg (Extracted uri (length tsv) (length signature)) (called (CallUntar b) s2);
                  (verr, s4) = (if \<not> noverify c
                                then (verify w uname tsv signature (keysdir c),
                                      called (CallVerify uname tsv signature (keysdir c)) s3)
                                else (None, s3))
              in case verr of
                   Some err \<Rightarrow> (Some err, s4)
                 | None \<Rightarrow>
                     (let s5 = called (CallParseTSV tsv) s4
                      in case ParseTSV w tsv devs of
                           Inl err \<Rightarrow> (Some err, s5)
                         | Inr list \<Rightarrow>
                             (let s6 = called CallGetACL (log_retrieved lg list s5)
                              in case GetACL w u devs of
                                   Inl err \<Rightarrow> (Some err, s6)
                                 | Inr current \<Rightarrow>
                                     (case c_report c w current list lg s6 of
                                        (Some err, s7) \<Rightarrow> (Some err, s7)
                                      | (None, s7) \<Rightarrow>
                                          (if rpt c \<noteq> [] then
                                             (case c_upload c w current list lg s7 of
                                                (Some err, s8) \<Rightarrow> (Some err, s8)
                                              | (None, s8) \<Rightarrow> (None, s8))
                                           else (None, s7)))))))"

text \<open>\<^verbatim>\<open>func (c *CompareACL) Execute\<close>\<close>

definition Execute :: "CompareACL \<Rightarrow> 'c world \<Rightarrow> state \<Rightarrow> error option \<times> state" where
  "Execute c w s =
     (if TrimSpace (acl c) = [] then (Some RequiresURL, s)
      else
        (let s1 = called (CallUrlParse (acl c)) s
         in case url_Parse w (acl c) of
              Inl err \<Rightarrow> (Some (InvalidURL (acl c) err), s1)
            | Inr uri \<Rightarrow>
                (let s2 = called (CallConfLoad (config c)) s1
                 in case conf_Load w (config c) of
                      Some err \<Rightarrow> (Some (ConfigLoad err), s2)
                    | None \<Rightarrow>
                        (let (u, devs) = getDevices w (config c) (debug c);
                             s3 = called CallGetDevices s2;
                             logger = (if \<not> nolog c then Ticker (logFile c) (logFileSize c)
                                       else StdoutLogger)
                         in execute c w u uri devs logger s3))))"

text \<open>\<^verbatim>\<open>var COMPARE_ACL\<close>: the defaults of the command. The \<^verbatim>\<open>DEFAULT_...\<close> constants
  are declared elsewhere and are parameters here; \<^verbatim>\<open>acl\<close> and \<^verbatim>\<open>rpt\<close> are not
  initialised and so hold the empty string.\<close>

record defaults =
  DEFAULT_CONFIG :: gostring
  DEFAULT_WORKDIR :: gostring
  DEFAULT_KEYSDIR :: gostring
  DEFAULT_KEYFILE :: gostring
  DEFAULT_CREDENTIALS :: gostring
  DEFAULT_REGION :: gostring
  DEFAULT_LOGFILE :: gostring
  DEFAULT_LOGFILESIZE :: int

definition COMPARE_ACL_template :: string where
  "COMPARE_ACL_template =
     ''ACL DIFF REPORT {{ .DateTime }}\<newline>'' @
     ''{{range $id,$value := .Diffs}}\<newline>'' @
     ''  DEVICE {{ $id }}{{if $value.Unchanged}}\<newline>'' @
     ''    Incorrect:  {{range $value.Updated}}{{.}}\<newline>'' @
     ''                {{end}}{{end}}{{if $value.Added}}\<newline>'' @
     ''    Missing:    {{range $value.Added}}{{.}}\<newline>'' @
     ''                {{end}}{{end}}{{if $value.Deleted}}\<newline>'' @
     ''    Unexpected: {{range $value.Deleted}}{{.}}\<newline>'' @
     ''                {{end}}{{end}}{{end}}\<newline>''"

definition COMPARE_ACL :: "defaults \<Rightarrow> CompareACL" where
  "COMPARE_ACL d =
     \<lparr> acl = [], rpt = [],
       config = DEFAULT_CONFIG d,
       workdir = DEFAULT_WORKDIR d,
       keysdir = DEFAULT_KEYSDIR d,
       keyfile = DEFAULT_KEYFILE d,
       credentials = DEFAULT_CREDENTIALS d,
       region = DEFAULT_REGION d,
       logFile = DEFAULT_LOGFILE d,
       logFileSize = DEFAULT_LOGFILESIZE d,
       template = COMPARE_ACL_template,
       noverify = False,
       noreport = False,
       nolog = False,
       debug = False \<rparr>"

text \<open>\<^verbatim>\<open>func (c *CompareACL) FlagSet\<close>: the options a command line can set. A string
  option is given with its value, a boolean option by its presence. There is no flag
  for \<^verbatim>\<open>noverify\<close>.\<close>

datatype flag =
    Flag_acl gostring | Flag_report gostring | Flag_credentials gostring | Flag_region gostring
  | Flag_keys gostring | Flag_key gostring | Flag_config gostring | Flag_workdir gostring
  | Flag_no_report bool | Flag_no_log bool | Flag_debug bool

fun set_flag :: "flag \<Rightarrow> CompareACL \<Rightarrow> CompareACL" where
  "set_flag (Flag_acl v) c = c\<lparr>acl := v\<rparr>"
| "set_flag (Flag_report v) c = c\<lparr>rpt := v\<rparr>"
| "set_flag (Flag_credentials v) c = c\<lparr>credentials := v\<rparr>"
| "set_flag (Flag_region v) c = c\<lparr>region := v\<rparr>"
| "set_flag (Flag_keys v) c = c\<lparr>keysdir := v\<rparr>"
| "set_flag (Flag_key v) c = c\<lparr>keyfile := v\<rparr>"
| "set_flag (Flag_config v) c = c\<lparr>config := v\<rparr>"
| "set_flag (Flag_workdir v) c = c\<lparr>workdir := v\<rparr>"
| "set_flag (Flag_no_report v) c = c\<lparr>noreport := v\<rparr>"
| "set_flag (Flag_no_log v) c = c\<lparr>nolog := v\<rparr>"
| "set_flag (Flag_debug v) c = c\<lparr>debug := v\<rparr>"

definition FlagSet :: "flag list \<Rightarrow> CompareACL \<Rightarrow> CompareACL" where
  "FlagSet fs c = fold set_flag fs c"

subsection \<open>The earlier revision (\<^verbatim>\<open>unnamed/part_000\<close>)\<close>

record CompareACL_p0 =
  url_p0 :: gostring
  config_p0 :: gostring
  workdir_p0 :: gostring
  keysdir_p0 :: gostring
  credentials_p0 :: gostring
  region_p0 :: gostring
  logFile_p0 :: gostring
  logFileSize_p0 :: int
  noverify_p0 :: bool
  nolog_p0 :: bool
  debug_p0 :: bool

definition c_fetchHTTP_p0 ::
  "CompareACL_p0 \<Rightarrow> 'c world \<Rightarrow> gostring \<Rightarrow> logger \<Rightarrow> state \<Rightarrow> (error + bytes) \<times> state" where
  "c_fetchHTTP_p0 c w url lg s =
     (let (ls, r) = fetchHTTP w url;
          s1 = foreign lg ls (called (CallFetchHTTP url) s)
      in case r of
           Inl err \<Rightarrow> (Inl err, s1)
         | Inr a \<Rightarrow> (Inr a, Printf lg (Fetched url (length a)) s1))"

definition c_fetchS3_p0 ::
  "CompareACL_p0 \<Rightarrow> 'c world \<Rightarrow> gostring \<Rightarrow> logger \<Rightarrow> state \<Rightarrow> (error + bytes) \<times> state" where
  "c_fetchS3_p0 c w url lg s =
     (let (ls, r) = fetchS3 w url (credentials_p0 c) (region_p0 c);
          s1 = foreign lg ls (called (CallFetchS3 url (credentials_p0 c) (region_p0 c)) s)
      in case r of
           Inl err \<Rightarrow> (Inl err, s1)
         | Inr a \<Rightarrow> (Inr a, Printf lg (Fetched url (length a)) s1))"

text \<open>The earlier \<^verbatim>\<open>report(current, list, c.workdir, log)\<close> is called as a statement.\<close>

definition do_report_p0 ::
  "'c world \<Rightarrow> 'c ACL \<Rightarrow> 'c ACL \<Rightarrow> gostring \<Rightarrow> logger \<Rightarrow> state \<Rightarrow> state" where
  "do_report_p0 w current list wd lg s =
     (let (ls, out) = report_p0 w current list wd;
          s1 = foreign lg ls (called (CallReport_p0 wd) s)
      in case out of
           None \<Rightarrow> s1
         | Some (file, text) \<Rightarrow> s1\<lparr>files := (files s1)(file \<mapsto> text)\<rparr>)"

text \<open>\<^verbatim>\<open>func (c *CompareACL) execute\<close> of the earlier revision: its last statement is
  \<^verbatim>\<open>return fmt.Errorf("OOOPS")\<close>.\<close>

definition execute_p0 ::
  "CompareACL_p0 \<Rightarrow> 'c world \<Rightarrow> IDevice \<Rightarrow> gostring \<Rightarrow> devices \<Rightarrow> logger \<Rightarrow> state \<Rightarrow> error option \<times> state" where
  "execute_p0 c w u uri devs lg s =
     (let s1 = Printf lg (Fetching uri) s;
          f = (if HasPrefix uri (gostr ''s3://'') then c_fetchS3_p0 else c_fetchHTTP_p0)
      in case f c w uri lg s1 of
           (Inl err, s2) \<Rightarrow> (Some err, s2)
         | (Inr b, s2) \<Rightarrow>
             (let (tsv, signature, uname, err) = untar w b;
                  s3 = Printf lg (Extracted uri (length tsv) (length signature)) (called (CallUntar b) s2);
                  (verr, s4) = (if \<not> noverify_p0 c
                                then (verify w uname tsv signature (keysdir_p0 c),
                                      called (CallVerify uname tsv signature (keysdir_p0 c)) s3)
                                else (None, s3))
              in case verr of
                   Some err \<Rightarrow> (Some err, s4)
                 | None \<Rightarrow>
                     (let s5 = called (CallParseTSV tsv) s4
                      in case ParseTSV w tsv devs of
                           Inl err \<Rightarrow> (Some err, s5)
                         | Inr list \<Rightarrow>
                             (let s6 = called CallGetACL (log_retrieved lg list s5)
                              in case GetACL w u devs of
                                   Inl err \<Rightarrow> (Some err, s6)
                                 | Inr current \<Rightarrow>
                                     (let s7 = do_report_p0 w current list (workdir_p0 c) lg s6
                                      in (Some OOOPS, s7))))))"

definition Execute_p0 :: "CompareACL_p0 \<Rightarrow> 'c world \<Rightarrow> state \<Rightarrow> error option \<times> state" where
  "Execute_p0 c w s =
     (if TrimSpace (url_p0 c) = [] then (Some RequiresURL, s)
      else
        (let s1 = called (CallUrlParse (url_p0 c)) s
         in case url_Parse w (url_p0 c) of
              Inl err \<Rightarrow> (Some (InvalidURL (url_p0 c) err), s1)
            | Inr uri \<Rightarrow>
                (let s2 = called (CallConfLoad (config_p0 c)) s1
                 in case conf_Load w (config_p0 c) of
                      Some err \<Rightarrow> (Some (ConfigLoad err), s2)
                    | None \<Rightarrow>
                        (let (u, devs) = getDevices w (config_p0 c) (debug_p0 c);
                             s3 = called CallGetDevices s2;
                             logger = (if \<not> nolog_p0 c then Ticker (logFile_p0 c) (logFileSize_p0 c)
                                       else StdoutLogger)
                         in execute_p0 c w u uri devs logger s3))))"

subsection \<open>The report template\<close>

text \<open>
  \<^verbatim>\<open>COMPARE_ACL.template\<close> is a Go \<^verbatim>\<open>text/template\<close>. It is executed on a value with a
  field \<^verbatim>\<open>DateTime\<close> and a field \<^verbatim>\<open>Diffs\<close>, a map from device identifier to a value with
  the four card lists \<^verbatim>\<open>Unchanged\<close>, \<^verbatim>\<open>Updated\<close>, \<^verbatim>\<open>Added\<close>, \<^verbatim>\<open>Deleted\<close>. The functions
  below are the template, action by action: text outside \<^verbatim>\<open>{{ }}\<close> is copied (the template
  has no trim markers), \<^verbatim>\<open>{{if x}}\<close> on a list tests that it is not empty, \<^verbatim>\<open>{{range}}\<close>
  over a list repeats its body per element, and over a map per key in ascending order.
\<close>

record 'c Diff =
  Unchanged :: "'c list"
  Updated :: "'c list"
  Added :: "'c list"
  Deleted :: "'c list"

text \<open>A device identifier is an unsigned integer, printed in decimal.\<close>

fun decimal :: "nat \<Rightarrow> string" where
  "decimal n =
     (if n < 10 then [''0123456789'' ! n]
      else decimal (n div 10) @ [''0123456789'' ! (n mod 10)])"

declare decimal.simps [simp del]

text \<open>\<^verbatim>\<open>{{range xs}}{{.}}<newline, 16 spaces>{{end}}\<close>\<close>

definition range_cards :: "('c \<Rightarrow> string) \<Rightarrow> 'c list \<Rightarrow> string" where
  "range_cards sh xs = concat (map (\<lambda>x. sh x @ ''\<newline>                '') xs)"

text \<open>The body of \<^verbatim>\<open>{{range $id,$value := .Diffs}}\<close>. The first conditional section
  tests \<^verbatim>\<open>$value.Unchanged\<close> and ranges over \<^verbatim>\<open>$value.Updated\<close>.\<close>

definition render_device :: "('c \<Rightarrow> string) \<Rightarrow> device_id \<Rightarrow> 'c Diff \<Rightarrow> string" where
  "render_device sh ident v =
     ''\<newline>  DEVICE '' @ decimal ident @
     (if Unchanged v \<noteq> [] then ''\<newline>    Incorrect:  '' @ range_cards sh (Updated v) else []) @
     (if Added v \<noteq> [] then ''\<newline>    Missing:    '' @ range_cards sh (Added v) else []) @
     (if Deleted v \<noteq> [] then ''\<newline>    Unexpected: '' @ range_cards sh (Deleted v) else [])"

definition render :: "('c \<Rightarrow> string) \<Rightarrow> string \<Rightarrow> (device_id \<times> 'c Diff) list \<Rightarrow> string" where
  "render sh dateTime diffs =
     ''ACL DIFF REPORT '' @ dateTime @ ''\<newline>'' @
     concat (map (\<lambda>(ident, v). render_device sh ident v) (sort_key fst diffs)) @
     ''\<newline>''"

subsection \<open>The diff engine\<close>

text \<open>
  The diff engine (\<^verbatim>\<open>acl.Compare\<close>, called by the package-level \<^verbatim>\<open>report\<close>) is not among
  the source files: the definitions of this subsection follow section 4.4 of the
  specification. A record is a pair of its key and its fields; an ACL maps a device
  identifier to a list of records.
\<close>

record ('k, 'f) DeviceDiff =
  unchanged :: "('k \<times> 'f) list"
  updated :: "('k \<times> 'f \<times> 'f) list"
  added :: "('k \<times> 'f) list"
  deleted :: "('k \<times> 'f) list"

text \<open>Modelled from the spec: the keys of a lookup of records by record key
  (\<^verbatim>\<open>acl.Compare\<close> is missing).\<close>

definition record_keys :: "('k \<times> 'f) list \<Rightarrow> 'k list" where
  "record_keys rs = remdups (map fst rs)"

text \<open>Modelled from the spec: the diff of one device (\<^verbatim>\<open>acl.Compare\<close> is missing). Per
  section 4.4: build a lookup of the current and of the authoritative records by record
  key; a key present in both is Unchanged if all fields are equal and Updated otherwise,
  retaining both the current and the authoritative fields; a key present only in
  authoritative is Added; a key present only in current is Deleted.\<close>

definition diff_device :: "('k \<times> 'f) list \<Rightarrow> ('k \<times> 'f) list \<Rightarrow> ('k, 'f) DeviceDiff" where
  "diff_device current authoritative =
     (let cur = map_of current; auth = map_of authoritative
      in \<lparr> unchanged = List.map_filter (\<lambda>k.
               case (cur k, auth k) of
                 (Some x, Some y) \<Rightarrow> if x = y then Some (k, y) else None
               | _ \<Rightarrow> None) (record_keys current),
            updated = List.map_filter (\<lambda>k.
               case (cur k, auth k) of
                 (Some x, Some y) \<Rightarrow> if x = y then None else Some (k, x, y)
               | _ \<Rightarrow> None) (record_keys current),
            added = List.map_filter (\<lambda>k.
               case (cur k, auth k) of
                 (None, Some y) \<Rightarrow> Some (k, y)
               | _ \<Rightarrow> None) (record_keys authoritative),
            deleted = List.map_filter (\<lambda>k.
               case (cur k, auth k) of
                 (Some x, None) \<Rightarrow> Some (k, x)
               | _ \<Rightarrow> None) (record_keys current) \<rparr>)"

text \<open>Modelled from the spec: the records of a device in an ACL, none when the device is
  absent from it (\<^verbatim>\<open>acl.Compare\<close> is missing).\<close>

definition records_of :: "('d \<times> ('k \<times> 'f) list) list \<Rightarrow> 'd \<Rightarrow> ('k \<times> 'f) list" where
  "records_of a dev = (case map_of a dev of None \<Rightarrow> [] | Some rs \<Rightarrow> rs)"

text \<open>Modelled from the spec: the device identifiers appearing in either ACL, sorted
  ascending (\<^verbatim>\<open>acl.Compare\<close> is missing).\<close>

definition device_ids ::
  "('d::linorder \<times> ('k \<times> 'f) list) list \<Rightarrow> ('d \<times> ('k \<times> 'f) list) list \<Rightarrow> 'd list" where
  "device_ids current authoritative = sort (remdups (map fst current @ map fst authoritative))"

text \<open>Modelled from the spec: \<^verbatim>\<open>diff(current ACL, authoritative ACL)\<close>, a mapping from
  device identifier to the diff of the device (\<^verbatim>\<open>acl.Compare\<close> is missing).\<close>

definition diff ::
  "('d::linorder \<times> ('k \<times> 'f) list) list \<Rightarrow> ('d \<times> ('k \<times> 'f) list) list
     \<Rightarrow> ('d \<times> ('k, 'f) DeviceDiff) list" where
  "diff current authoritative =
     map (\<lambda>dev. (dev, diff_device (records_of current dev) (records_of authoritative dev)))
       (device_ids current authoritative)"

text \<open>The record keys a classification holds.\<close>

definition keys_unchanged :: "('k, 'f) DeviceDiff \<Rightarrow> 'k set" where
  "keys_unchanged d = fst ` set (unchanged d)"

definition keys_updated :: "('k, 'f) DeviceDiff \<Rightarrow> 'k set" where
  "keys_updated d = fst ` set (updated d)"

definition keys_added :: "('k, 'f) DeviceDiff \<Rightarrow> 'k set" where
  "keys_added d = fst ` set (added d)"

definition keys_deleted :: "('k, 'f) DeviceDiff \<Rightarrow> 'k set" where
  "keys_deleted d = fst ` set (deleted d)"

text \<open>Calls that produce output: creating or writing the report, signing, packing and
  storing it.\<close>

fun is_output_call :: "call \<Rightarrow> bool" where
  "is_output_call (CallCreate _) = True"
| "is_output_call (CallReport _) = True"
| "is_output_call (CallReport_p0 _) = True"
| "is_output_call (CallSign _ _) = True"
| "is_output_call (CallTargz _) = True"
| "is_output_call (CallStoreHTTP _ _) = True"
| "is_output_call (CallStoreS3 _ _) = True"
| "is_output_call _ = False"

fun is_verify_call :: "call \<Rightarrow> bool" where
  "is_verify_call (CallVerify _ _ _ _) = True"
| "is_verify_call _ = False"

subsection \<open>Concrete runs\<close>

text \<open>A world in which every step succeeds, a configuration for each revision, and the
  empty initial state. Cards are written as strings.\<close>

definition world_ok :: "string world" where
  "world_ok =
     \<lparr> url_Parse = (\<lambda>u. Inr u),
       conf_Load = (\<lambda>_. None),
       getDevices = (\<lambda>_ _. (0, [1])),
       fetchHTTP = (\<lambda>_. ([], Inr ''archive'')),
       fetchS3 = (\<lambda>_ _ _. ([], Inr ''archive'')),
       untar = (\<lambda>_. (''tsv'', ''sig'', [97], None)),
       verify = (\<lambda>_ _ _ _. None),
       ParseTSV = (\<lambda>_ _. Inr [(1, [''1001''])]),
       GetACL = (\<lambda>_ _. Inr [(1, [''1001''])]),
       report = (\<lambda>_ _ _ _. (''report'', None)),
       report_p0 = (\<lambda>_ _ wd. ([], Some (wd, ''report''))),
       os_Create = (\<lambda>_. None),
       timeNow_report = [114],
       timeNow_upload = [115],
       filepath_Join = (\<lambda>d f. d @ [47] @ f),
       sign = (\<lambda>_ _. Inr ''sg''),
       targz = (\<lambda>_. Inr ''tgz''),
       storeHTTP = (\<lambda>_ _. None),
       storeS3 = (\<lambda>_ _ _ _. None) \<rparr>"

definition cfg0 :: CompareACL where
  "cfg0 =
     \<lparr> acl = [104], rpt = [], config = [99], workdir = [119], keysdir = [107], keyfile = [102],
       credentials = [], region = [], logFile = [108], logFileSize = 10,
       template = COMPARE_ACL_template,
       noverify = False, noreport = False, nolog = False, debug = False \<rparr>"

definition cfg0_p0 :: CompareACL_p0 where
  "cfg0_p0 =
     \<lparr> url_p0 = [104], config_p0 = [99], workdir_p0 = [119], keysdir_p0 = [107],
       credentials_p0 = [], region_p0 = [], logFile_p0 = [108], logFileSize_p0 = 10,
       noverify_p0 = False, nolog_p0 = False, debug_p0 = False \<rparr>"

definition state0 :: state where
  "state0 = \<lparr> logged = [], files = Map.empty, stdout = [], stored = [], calls = [] \<rparr>"

text \<open>Worlds in which one step fails.\<close>

definition world_bad_signature :: "string world" where
  "world_bad_signature = world_ok\<lparr>verify := (\<lambda>_ _ _ _. Some (External ''signature mismatch''))\<rparr>"

definition world_bad_archive :: "string world" where
  "world_bad_archive =
     world_ok\<lparr>untar := (\<lambda>_. (''ts'', [], [], Some (External ''malformed archive'')))\<rparr>"

definition world_bad_archive_signature :: "string world" where
  "world_bad_archive_signature =
     world_bad_archive\<lparr>verify := (\<lambda>_ _ _ _. Some (External ''signature mismatch''))\<rparr>"

definition world_bad_stdout :: "string world" where
  "world_bad_stdout =
     world_ok\<lparr>report := (\<lambda>_ _ _ k. if k = Stdout then ([], Some (External ''write failed''))
                                   else (''report'', None))\<rparr>"

definition world_bad_key :: "string world" where
  "world_bad_key = world_ok\<lparr>sign := (\<lambda>_ _. Inl (External ''invalid private key''))\<rparr>"

definition world_bad_tsv :: "string world" where
  "world_bad_tsv = world_ok\<lparr>ParseTSV := (\<lambda>_ _. Inl (External ''missing column''))\<rparr>"

text \<open>A verification that accepts the payload \<open>tsv\<close> and rejects every other.\<close>

definition verify_tsv_only :: "gostring \<Rightarrow> bytes \<Rightarrow> bytes \<Rightarrow> gostring \<Rightarrow> error option" where
  "verify_tsv_only uname payload signature dir =
     (if payload = ''tsv'' then None else Some (External ''signature mismatch''))"

subsection \<open>The transport chosen for a URI\<close>

text \<open>\<^verbatim>\<open>execute\<close> fetches with \<^verbatim>\<open>fetchS3\<close> when the URI starts with \<^verbatim>\<open>s3://\<close> and with
  \<^verbatim>\<open>fetchHTTP\<close> otherwise. These name what that fetch returns and the call it makes.\<close>

definition fetch_outcome :: "CompareACL \<Rightarrow> 'c world \<Rightarrow> gostring \<Rightarrow> error + bytes" where
  "fetch_outcome c w uri =
     snd (if HasPrefix uri (gostr ''s3://'') then fetchS3 w uri (credentials c) (region c)
          else fetchHTTP w uri)"

definition fetch_call :: "CompareACL \<Rightarrow> gostring \<Rightarrow> call" where
  "fetch_call c uri =
     (if HasPrefix uri (gostr ''s3://'') then CallFetchS3 uri (credentials c) (region c)
      else CallFetchHTTP uri)"

definition fetch_outcome_p0 :: "CompareACL_p0 \<Rightarrow> 'c world \<Rightarrow> gostring \<Rightarrow> error + bytes" where
  "fetch_outcome_p0 c w uri =
     snd (if HasPrefix uri (gostr ''s3://'') then fetchS3 w uri (credentials_p0 c) (region_p0 c)
          else fetchHTTP w uri)"

definition fetch_call_p0 :: "CompareACL_p0 \<Rightarrow> gostring \<Rightarrow> call" where
  "fetch_call_p0 c uri =
     (if HasPrefix uri (gostr ''s3://'') then CallFetchS3 uri (credentials_p0 c) (region_p0 c)
      else CallFetchHTTP uri)"

text \<open>The lines the chosen transport writes to the logger it is handed.\<close>

definition fetch_lines :: "CompareACL \<Rightarrow> 'c world \<Rightarrow> gostring \<Rightarrow> string list" where
  "fetch_lines c w uri =
     fst (if HasPrefix uri (gostr ''s3://'') then fetchS3 w uri (credentials c) (region c)
          else fetchHTTP w uri)"

text \<open>The lines of the retrieval loop and of the report and upload steps.\<close>

fun is_later_line :: "logline \<Rightarrow> bool" where
  "is_later_line (Retrieved _ _) = True"
| "is_later_line Generating = True"
| "is_later_line (Writing _) = True"
| "is_later_line Uploading = True"
| "is_later_line (Tarred _ _ _) = True"
| "is_later_line (Uploaded _) = True"
| "is_later_line _ = False"

section \<open>Properties of the command\<close>

lemmas effect_defs = Printf_def called_def foreign_def

lemma TrimSpace_blank: "\<forall>r\<in>set a. IsSpace r \<Longrightarrow> TrimSpace a = []"
proof -
  assume "\<forall>r\<in>set a. IsSpace r"
  then have blank: "dropWhile IsSpace a = []" by (induction a) simp_all
  show ?thesis unfolding TrimSpace_def blank by simp
qed

lemma log_retrieved_frame:
  "files (log_retrieved lg l s) = files s \<and> stdout (log_retrieved lg l s) = stdout s \<and>
   stored (log_retrieved lg l s) = stored s \<and> calls (log_retrieved lg l s) = calls s"
  by (induction lg l s rule: log_retrieved.induct) (simp_all add: Printf_def)

lemma log_retrieved_logged:
  "logged (log_retrieved lg l s) = logged s @ map (\<lambda>(k, x). (lg, Retrieved k (length x))) l"
  by (induction lg l s rule: log_retrieved.induct) (simp_all add: Printf_def)

text \<open>The fetch step: its result is the outcome of the chosen transport; it makes one
  call and touches neither files nor standard output nor the remote store.\<close>

lemma fetch_step:
  "\<exists>s2. (if HasPrefix uri (gostr ''s3://'') then c_fetchS3 else c_fetchHTTP) c w uri lg s1
          = (fetch_outcome c w uri, s2) \<and>
        files s2 = files s1 \<and> stdout s2 = stdout s1 \<and> stored s2 = stored s1 \<and>
        calls s2 = calls s1 @ [fetch_call c uri]"
  by (cases "fetchS3 w uri (credentials c) (region c)"; cases "fetchHTTP w uri")
     (auto simp: fetch_outcome_def fetch_call_def c_fetchS3_def c_fetchHTTP_def effect_defs
           Let_def split: sum.splits)

lemma fetch_step_p0:
  "\<exists>s2. (if HasPrefix uri (gostr ''s3://'') then c_fetchS3_p0 else c_fetchHTTP_p0) c w uri lg s1
          = (fetch_outcome_p0 c w uri, s2) \<and>
        files s2 = files s1 \<and> stdout s2 = stdout s1 \<and> stored s2 = stored s1 \<and>
        calls s2 = calls s1 @ [fetch_call_p0 c uri]"
  by (cases "fetchS3 w uri (credentials_p0 c) (region_p0 c)"; cases "fetchHTTP w uri")
     (auto simp: fetch_outcome_p0_def fetch_call_p0_def c_fetchS3_p0_def c_fetchHTTP_p0_def
           effect_defs Let_def split: sum.splits)

lemma execute_verify_fails:
  assumes nv: "\<not> noverify c"
    and fetch: "fetch_outcome c w uri = Inr b"
    and un: "untar w b = (tsv, sg, uname, uerr)"
    and ver: "verify w uname tsv sg (keysdir c) = Some e"
  shows "\<exists>s'. execute c w u uri devs lg s = (Some e, s') \<and>
           calls s' = calls s @ [fetch_call c uri, CallUntar b, CallVerify uname tsv sg (keysdir c)] \<and>
           files s' = files s \<and> stdout s' = stdout s \<and> stored s' = stored s"
proof -
  obtain s2 where
    "(if HasPrefix uri (gostr ''s3://'') then c_fetchS3 else c_fetchHTTP) c w uri lg
        (Printf lg (Fetching uri) s) = (Inr b, s2)"
    "files s2 = files s" "stdout s2 = stdout s" "stored s2 = stored s"
    "calls s2 = calls s @ [fetch_call c uri]"
    using fetch_step [of uri c w lg "Printf lg (Fetching uri) s"] fetch
    by (auto simp: Printf_def)
  then show ?thesis
    by (simp add: execute_def Let_def nv un ver effect_defs)
qed

lemma execute_p0_verify_fails:
  assumes nv: "\<not> noverify_p0 c"
    and fetch: "fetch_outcome_p0 c w uri = Inr b"
    and un: "untar w b = (tsv, sg, uname, uerr)"
    and ver: "verify w uname tsv sg (keysdir_p0 c) = Some e"
  shows "\<exists>s'. execute_p0 c w u uri devs lg s = (Some e, s') \<and>
           calls s' = calls s @ [fetch_call_p0 c uri, CallUntar b, CallVerify uname tsv sg (keysdir_p0 c)] \<and>
           files s' = files s \<and> stdout s' = stdout s \<and> stored s' = stored s"
proof -
  obtain s2 where
    "(if HasPrefix uri (gostr ''s3://'') then c_fetchS3_p0 else c_fetchHTTP_p0) c w uri lg
        (Printf lg (Fetching uri) s) = (Inr b, s2)"
    "files s2 = files s" "stdout s2 = stdout s" "stored s2 = stored s"
    "calls s2 = calls s @ [fetch_call_p0 c uri]"
    using fetch_step_p0 [of uri c w lg "Printf lg (Fetching uri) s"] fetch
    by (auto simp: Printf_def)
  then show ?thesis
    by (simp add: execute_p0_def Let_def nv un ver effect_defs)
qed


lemma output_call_not_verify: "is_output_call k \<Longrightarrow> \<not> is_verify_call k"
  by (cases k) simp_all

lemma output_call_not_parse: "is_output_call k \<Longrightarrow> k \<noteq> CallParseTSV x"
  by (cases k) simp_all

lemma c_report_calls:
  "\<exists>r. calls (snd (c_report c w cur l lg s)) = calls s @ r \<and> (\<forall>k\<in>set r. is_output_call k)"
  by (cases "os_Create w (filepath_Join w (workdir c) (timeNow_report w))";
      cases "report w cur l (template c) Stdout";
      cases "report w cur l (template c) (File (filepath_Join w (workdir c) (timeNow_report w)))")
     (simp_all add: c_report_def do_Create_def do_report_def write_sink_def effect_defs Let_def)

lemma store_step:
  "\<exists>r. calls (snd ((if HasPrefix (rpt c) (gostr ''s3://'') then c_storeS3 else c_storeHTTP) c w (rpt c) b s))
          = calls s @ r \<and> (\<forall>k\<in>set r. is_output_call k) \<and>
        files (snd ((if HasPrefix (rpt c) (gostr ''s3://'') then c_storeS3 else c_storeHTTP) c w (rpt c) b s))
          = files s \<and>
        stdout (snd ((if HasPrefix (rpt c) (gostr ''s3://'') then c_storeS3 else c_storeHTTP) c w (rpt c) b s))
          = stdout s"
  by (simp add: c_storeS3_def c_storeHTTP_def effect_defs Let_def split: option.splits)

lemma c_upload_frame:
  "\<exists>r. calls (snd (c_upload c w cur l lg s)) = calls s @ r \<and> (\<forall>k\<in>set r. is_output_call k) \<and>
        files (snd (c_upload c w cur l lg s)) = files s \<and>
        stdout (snd (c_upload c w cur l lg s)) = stdout s"
proof (cases "report w cur l (template c) Builder")
  case (Pair body err)
  show ?thesis
  proof (cases err)
    case (Some e)
    with Pair show ?thesis
      by (simp add: c_upload_def do_report_def write_sink_def effect_defs Let_def)
  next
    case None
    show ?thesis
    proof (cases "sign w body (keyfile c)")
      case (Inl e)
      with Pair None show ?thesis
        by (simp add: c_upload_def do_report_def write_sink_def effect_defs Let_def)
    next
      case (Inr sg)
      note signed = this
      show ?thesis
      proof (cases "targz w [(timeNow_upload w, body), (gostr ''signature'', sg)]")
        case (Inl e)
        with Pair None signed show ?thesis
          by (simp add: c_upload_def do_report_def write_sink_def effect_defs Let_def)
      next
        case (Inr tgz)
        define s5 where "s5 = Printf lg (Tarred (length body) (length sg) (length tgz))
           (called (CallTargz [(timeNow_upload w, body), (gostr ''signature'', sg)])
             (called (CallSign body (keyfile c))
               (write_sink Builder body (called (CallReport Builder) (Printf lg Uploading s)))))"
        define st where "st = (if HasPrefix (rpt c) (gostr ''s3://'') then c_storeS3 else c_storeHTTP)
                 c w (rpt c) tgz s5"
        obtain r where r: "calls (snd st) = calls s5 @ r" "\<forall>k\<in>set r. is_output_call k"
          "files (snd st) = files s5" "stdout (snd st) = stdout s5"
          using store_step [of c w tgz s5] unfolding st_def by blast
        have s5: "calls s5 = calls s @ [CallReport Builder, CallSign body (keyfile c),
                     CallTargz [(timeNow_upload w, body), (gostr ''signature'', sg)]]"
          "files s5 = files s" "stdout s5 = stdout s"
          by (simp_all add: s5_def write_sink_def effect_defs)
        have "c_upload c w cur l lg s =
                (case st of (Some err, s6) \<Rightarrow> (Some err, s6)
                          | (None, s6) \<Rightarrow> (None, Printf lg (Uploaded (rpt c)) s6))"
          using Pair None signed Inr
          by (simp add: c_upload_def do_report_def Let_def s5_def st_def)
        then have "calls (snd (c_upload c w cur l lg s)) = calls (snd st)"
          "files (snd (c_upload c w cur l lg s)) = files (snd st)"
          "stdout (snd (c_upload c w cur l lg s)) = stdout (snd st)"
          by (simp_all add: Printf_def split: prod.splits option.splits)
        with r s5 show ?thesis by simp
      qed
    qed
  qed
qed


text \<open>\<^verbatim>\<open>execute\<close> once the fetch has succeeded: the state after the verification step and
  what follows it.\<close>

lemma execute_unfold:
  assumes fetch: "fetch_outcome c w uri = Inr b"
    and un: "untar w b = (tsv, sg, uname, uerr)"
  shows "\<exists>s4. calls s4 = calls s @ [fetch_call c uri, CallUntar b] @
                   (if noverify c then [] else [CallVerify uname tsv sg (keysdir c)]) \<and>
              files s4 = files s \<and> stdout s4 = stdout s \<and> stored s4 = stored s \<and>
              logged s4 =
                logged (snd ((if HasPrefix uri (gostr ''s3://'') then c_fetchS3 else c_fetchHTTP)
                               c w uri lg (Printf lg (Fetching uri) s))) @
                [(lg, Extracted uri (length tsv) (length sg))] \<and>
              execute c w u uri devs lg s =
                (case (if noverify c then None else verify w uname tsv sg (keysdir c)) of
                   Some err \<Rightarrow> (Some err, s4)
                 | None \<Rightarrow>
                     (case ParseTSV w tsv devs of
                        Inl err \<Rightarrow> (Some err, called (CallParseTSV tsv) s4)
                      | Inr list \<Rightarrow>
                          (case GetACL w u devs of
                             Inl err \<Rightarrow> (Some err, called CallGetACL (log_retrieved lg list (called (CallParseTSV tsv) s4)))
                           | Inr current \<Rightarrow>
                               (case c_report c w current list lg
                                       (called CallGetACL (log_retrieved lg list (called (CallParseTSV tsv) s4))) of
                                  (Some err, s7) \<Rightarrow> (Some err, s7)
                                | (None, s7) \<Rightarrow>
                                    (if rpt c \<noteq> [] then c_upload c w current list lg s7
                                     else (None, s7))))))"
proof -
  obtain s2 where s2:
    "(if HasPrefix uri (gostr ''s3://'') then c_fetchS3 else c_fetchHTTP) c w uri lg
        (Printf lg (Fetching uri) s) = (Inr b, s2)"
    "files s2 = files s" "stdout s2 = stdout s" "stored s2 = stored s"
    "calls s2 = calls s @ [fetch_call c uri]"
    using fetch_step [of uri c w lg "Printf lg (Fetching uri) s"] fetch
    by (auto simp: Printf_def)
  define s3 where "s3 = Printf lg (Extracted uri (length tsv) (length sg)) (called (CallUntar b) s2)"
  define s4 where "s4 = (if noverify c then s3 else called (CallVerify uname tsv sg (keysdir c)) s3)"
  have frame: "calls s4 = calls s @ [fetch_call c uri, CallUntar b] @
                   (if noverify c then [] else [CallVerify uname tsv sg (keysdir c)])"
    "files s4 = files s" "stdout s4 = stdout s" "stored s4 = stored s"
    "logged s4 =
       logged (snd ((if HasPrefix uri (gostr ''s3://'') then c_fetchS3 else c_fetchHTTP)
                      c w uri lg (Printf lg (Fetching uri) s))) @
       [(lg, Extracted uri (length tsv) (length sg))]"
    using s2 by (simp_all add: s4_def s3_def effect_defs)
  have same: "(case x of (Some err, s8) \<Rightarrow> (Some err, s8) | (None, s8) \<Rightarrow> (None, s8)) = x"
    for x :: "error option \<times> state"
    by (simp split: prod.splits option.splits)
  have "execute c w u uri devs lg s =
                (case (if noverify c then None else verify w uname tsv sg (keysdir c)) of
                   Some err \<Rightarrow> (Some err, s4)
                 | None \<Rightarrow>
                     (case ParseTSV w tsv devs of
                        Inl err \<Rightarrow> (Some err, called (CallParseTSV tsv) s4)
                      | Inr list \<Rightarrow>
                          (case GetACL w u devs of
                             Inl err \<Rightarrow> (Some err, called CallGetACL (log_retrieved lg list (called (CallParseTSV tsv) s4)))
                           | Inr current \<Rightarrow>
                               (case c_report c w current list lg
                                       (called CallGetACL (log_retrieved lg list (called (CallParseTSV tsv) s4))) of
                                  (Some err, s7) \<Rightarrow> (Some err, s7)
                                | (None, s7) \<Rightarrow>
                                    (if rpt c \<noteq> [] then c_upload c w current list lg s7
                                     else (None, s7))))))"
    unfolding execute_def Let_def s2 s4_def s3_def same
    by (cases "noverify c") (simp_all add: un)
  with frame show ?thesis by blast
qed


lemma execute_p0_unfold:
  assumes fetch: "fetch_outcome_p0 c w uri = Inr b"
    and un: "untar w b = (tsv, sg, uname, uerr)"
  shows "\<exists>s4. calls s4 = calls s @ [fetch_call_p0 c uri, CallUntar b] @
                   (if noverify_p0 c then [] else [CallVerify uname tsv sg (keysdir_p0 c)]) \<and>
              files s4 = files s \<and> stdout s4 = stdout s \<and> stored s4 = stored s \<and>
              execute_p0 c w u uri devs lg s =
                (case (if noverify_p0 c then None else verify w uname tsv sg (keysdir_p0 c)) of
                   Some err \<Rightarrow> (Some err, s4)
                 | None \<Rightarrow>
                     (case ParseTSV w tsv devs of
                        Inl err \<Rightarrow> (Some err, called (CallParseTSV tsv) s4)
                      | Inr list \<Rightarrow>
                          (case GetACL w u devs of
                             Inl err \<Rightarrow> (Some err, called CallGetACL (log_retrieved lg list (called (CallParseTSV tsv) s4)))
                           | Inr current \<Rightarrow>
                               (Some OOOPS,
                                do_report_p0 w current list (workdir_p0 c) lg
                                  (called CallGetACL (log_retrieved lg list (called (CallParseTSV tsv) s4)))))))"
proof -
  obtain s2 where s2:
    "(if HasPrefix uri (gostr ''s3://'') then c_fetchS3_p0 else c_fetchHTTP_p0) c w uri lg
        (Printf lg (Fetching uri) s) = (Inr b, s2)"
    "files s2 = files s" "stdout s2 = stdout s" "stored s2 = stored s"
    "calls s2 = calls s @ [fetch_call_p0 c uri]"
    using fetch_step_p0 [of uri c w lg "Printf lg (Fetching uri) s"] fetch
    by (auto simp: Printf_def)
  define s3 where "s3 = Printf lg (Extracted uri (length tsv) (length sg)) (called (CallUntar b) s2)"
  define s4 where "s4 = (if noverify_p0 c then s3 else called (CallVerify uname tsv sg (keysdir_p0 c)) s3)"
  have frame: "calls s4 = calls s @ [fetch_call_p0 c uri, CallUntar b] @
                   (if noverify_p0 c then [] else [CallVerify uname tsv sg (keysdir_p0 c)])"
    "files s4 = files s" "stdout s4 = stdout s" "stored s4 = stored s"
    using s2 by (simp_all add: s4_def s3_def effect_defs)
  have "execute_p0 c w u uri devs lg s =
                (case (if noverify_p0 c then None else verify w uname tsv sg (keysdir_p0 c)) of
                   Some err \<Rightarrow> (Some err, s4)
                 | None \<Rightarrow>
                     (case ParseTSV w tsv devs of
                        Inl err \<Rightarrow> (Some err, called (CallParseTSV tsv) s4)
                      | Inr list \<Rightarrow>
                          (case GetACL w u devs of
                             Inl err \<Rightarrow> (Some err, called CallGetACL (log_retrieved lg list (called (CallParseTSV tsv) s4)))
                           | Inr current \<Rightarrow>
                               (Some OOOPS,
                                do_report_p0 w current list (workdir_p0 c) lg
                                  (called CallGetACL (log_retrieved lg list (called (CallParseTSV tsv) s4)))))))"
    unfolding execute_p0_def Let_def s2 s4_def s3_def
    by (cases "noverify_p0 c") (simp_all add: un)
  with frame show ?thesis by blast
qed

lemma do_report_p0_calls:
  "calls (do_report_p0 w cur l wd lg s) = calls s @ [CallReport_p0 wd]"
  by (simp add: do_report_p0_def effect_defs Let_def split: prod.splits option.splits)

text \<open>The calls of a run whose fetch succeeded: fetch, untar, then verify (unless
  bypassed) on what untar returned, then the rest, which holds no verification and
  parses that same payload only.\<close>

lemma execute_calls:
  assumes fetch: "fetch_outcome c w uri = Inr b"
    and un: "untar w b = (tsv, sg, uname, uerr)"
  shows "\<exists>rest. calls (snd (execute c w u uri devs lg s)) =
                  calls s @ [fetch_call c uri, CallUntar b] @
                  (if noverify c then [] else [CallVerify uname tsv sg (keysdir c)]) @ rest \<and>
               (\<forall>k\<in>set rest. \<not> is_verify_call k) \<and>
               (\<forall>x. CallParseTSV x \<in> set rest \<longrightarrow> x = tsv)"
proof -
  let ?pre = "calls s @ [fetch_call c uri, CallUntar b] @
                  (if noverify c then [] else [CallVerify uname tsv sg (keysdir c)])"
  obtain s4 where s4: "calls s4 = ?pre"
    and E: "execute c w u uri devs lg s =
                (case (if noverify c then None else verify w uname tsv sg (keysdir c)) of
                   Some err \<Rightarrow> (Some err, s4)
                 | None \<Rightarrow>
                     (case ParseTSV w tsv devs of
                        Inl err \<Rightarrow> (Some err, called (CallParseTSV tsv) s4)
                      | Inr list \<Rightarrow>
                          (case GetACL w u devs of
                             Inl err \<Rightarrow> (Some err, called CallGetACL (log_retrieved lg list (called (CallParseTSV tsv) s4)))
                           | Inr current \<Rightarrow>
                               (case c_report c w current list lg
                                       (called CallGetACL (log_retrieved lg list (called (CallParseTSV tsv) s4))) of
                                  (Some err, s7) \<Rightarrow> (Some err, s7)
                                | (None, s7) \<Rightarrow>
                                    (if rpt c \<noteq> [] then c_upload c w current list lg s7
                                     else (None, s7))))))"
    using execute_unfold [OF fetch un, where s = s and u = u and devs = devs and lg = lg] by blast
  have goal: ?thesis
    if "calls (snd (execute c w u uri devs lg s)) = ?pre @ CallParseTSV tsv # r"
      "\<forall>k\<in>set r. k = CallGetACL \<or> is_output_call k" for r
  proof -
    have "\<forall>k\<in>set (CallParseTSV tsv # r). \<not> is_verify_call k"
      using that(2) output_call_not_verify by auto
    moreover have "\<forall>x. CallParseTSV x \<in> set (CallParseTSV tsv # r) \<longrightarrow> x = tsv"
      using that(2) output_call_not_parse by auto
    ultimately show ?thesis
      using that(1) by (intro exI [of _ "CallParseTSV tsv # r"]) simp
  qed
  show ?thesis
  proof (cases "if noverify c then None else verify w uname tsv sg (keysdir c)")
    case (Some e)
    then have "calls (snd (execute c w u uri devs lg s)) = ?pre @ []"
      using E s4 by simp
    then show ?thesis by (intro exI [of _ "[]"]) simp
  next
    case None
    note verified = this
    show ?thesis
    proof (cases "ParseTSV w tsv devs")
      case (Inl e)
      then have "calls (snd (execute c w u uri devs lg s)) = ?pre @ CallParseTSV tsv # []"
        using E s4 verified by (simp add: called_def)
      then show ?thesis by (rule goal) simp
    next
      case (Inr list)
      note parsed = this
      define s6 where "s6 = called CallGetACL (log_retrieved lg list (called (CallParseTSV tsv) s4))"
      have s6: "calls s6 = ?pre @ [CallParseTSV tsv, CallGetACL]"
        using s4 by (simp add: s6_def called_def log_retrieved_frame)
      show ?thesis
      proof (cases "GetACL w u devs")
        case (Inl e)
        then have "calls (snd (execute c w u uri devs lg s)) = ?pre @ CallParseTSV tsv # [CallGetACL]"
          using E s6 verified parsed by (simp add: s6_def)
        then show ?thesis by (rule goal) simp
      next
        case (Inr current)
        obtain r1 where r1: "calls (snd (c_report c w current list lg s6)) = calls s6 @ r1"
          "\<forall>k\<in>set r1. is_output_call k"
          using c_report_calls by blast
        obtain r2 where r2: "calls (snd (c_upload c w current list lg (snd (c_report c w current list lg s6))))
             = calls (snd (c_report c w current list lg s6)) @ r2" "\<forall>k\<in>set r2. is_output_call k"
          using c_upload_frame by blast
        have "execute c w u uri devs lg s =
                (case c_report c w current list lg s6 of
                   (Some err, s7) \<Rightarrow> (Some err, s7)
                 | (None, s7) \<Rightarrow> (if rpt c \<noteq> [] then c_upload c w current list lg s7 else (None, s7)))"
          using E verified parsed Inr by (simp add: s6_def)
        then have "calls (snd (execute c w u uri devs lg s)) = calls s6 @ r1 \<or>
                   calls (snd (execute c w u uri devs lg s)) = calls s6 @ r1 @ r2"
          using r1 r2 by (cases "c_report c w current list lg s6") (auto split: option.splits)
        then have "calls (snd (execute c w u uri devs lg s)) = ?pre @ CallParseTSV tsv # (CallGetACL # r1) \<or>
                   calls (snd (execute c w u uri devs lg s)) = ?pre @ CallParseTSV tsv # (CallGetACL # r1 @ r2)"
          using s6 by simp
        then show ?thesis
        proof
          assume "calls (snd (execute c w u uri devs lg s)) = ?pre @ CallParseTSV tsv # (CallGetACL # r1)"
          then show ?thesis by (rule goal) (use r1 in auto)
        next
          assume "calls (snd (execute c w u uri devs lg s)) = ?pre @ CallParseTSV tsv # (CallGetACL # r1 @ r2)"
          then show ?thesis by (rule goal) (use r1 r2 in auto)
        qed
      qed
    qed
  qed
qed

lemma execute_p0_calls:
  assumes fetch: "fetch_outcome_p0 c w uri = Inr b"
    and un: "untar w b = (tsv, sg, uname, uerr)"
  shows "\<exists>rest. calls (snd (execute_p0 c w u uri devs lg s)) =
                  calls s @ [fetch_call_p0 c uri, CallUntar b] @
                  (if noverify_p0 c then [] else [CallVerify uname tsv sg (keysdir_p0 c)]) @ rest \<and>
               (\<forall>k\<in>set rest. \<not> is_verify_call k) \<and>
               (\<forall>x. CallParseTSV x \<in> set rest \<longrightarrow> x = tsv)"
proof -
  let ?pre = "calls s @ [fetch_call_p0 c uri, CallUntar b] @
                  (if noverify_p0 c then [] else [CallVerify uname tsv sg (keysdir_p0 c)])"
  obtain s4 where s4: "calls s4 = ?pre"
    and E: "execute_p0 c w u uri devs lg s =
                (case (if noverify_p0 c then None else verify w uname tsv sg (keysdir_p0 c)) of
                   Some err \<Rightarrow> (Some err, s4)
                 | None \<Rightarrow>
                     (case ParseTSV w tsv devs of
                        Inl err \<Rightarrow> (Some err, called (CallParseTSV tsv) s4)
                      | Inr list \<Rightarrow>
                          (case GetACL w u devs of
                             Inl err \<Rightarrow> (Some err, called CallGetACL (log_retrieved lg list (called (CallParseTSV tsv) s4)))
                           | Inr current \<Rightarrow>
                               (Some OOOPS,
                                do_report_p0 w current list (workdir_p0 c) lg
                                  (called CallGetACL (log_retrieved lg list (called (CallParseTSV tsv) s4)))))))"
    using execute_p0_unfold [OF fetch un, where s = s and u = u and devs = devs and lg = lg] by blast
  have "calls (snd (execute_p0 c w u uri devs lg s)) = ?pre @ [] \<or>
        calls (snd (execute_p0 c w u uri devs lg s)) = ?pre @ [CallParseTSV tsv] \<or>
        calls (snd (execute_p0 c w u uri devs lg s)) = ?pre @ [CallParseTSV tsv, CallGetACL] \<or>
        calls (snd (execute_p0 c w u uri devs lg s)) =
          ?pre @ [CallParseTSV tsv, CallGetACL, CallReport_p0 (workdir_p0 c)]"
    unfolding E using s4
    by (simp add: called_def log_retrieved_frame do_report_p0_calls split: option.splits sum.splits)
  then show ?thesis
    by (elim disjE;
        intro exI [of _ "[]"] exI [of _ "[CallParseTSV tsv]"] exI [of _ "[CallParseTSV tsv, CallGetACL]"]
              exI [of _ "[CallParseTSV tsv, CallGetACL, CallReport_p0 (workdir_p0 c)]"]) simp_all
qed

text \<open>Only \<open>execute\<close> itself reads the \<open>verify\<close> of the world.\<close>

lemma fetch_verify_irrelevant:
  "(if HasPrefix uri (gostr ''s3://'') then c_fetchS3 else c_fetchHTTP) c (w\<lparr>verify := v\<rparr>) uri lg s
   = (if HasPrefix uri (gostr ''s3://'') then c_fetchS3 else c_fetchHTTP) c w uri lg s"
  by (simp add: c_fetchS3_def c_fetchHTTP_def)

lemma c_report_verify_irrelevant:
  "c_report c (w\<lparr>verify := v\<rparr>) cur l lg s = c_report c w cur l lg s"
  by (simp add: c_report_def do_report_def do_Create_def Let_def
        split: prod.splits option.splits)

lemma c_upload_verify_irrelevant:
  "c_upload c (w\<lparr>verify := v\<rparr>) cur l lg s = c_upload c w cur l lg s"
  by (simp add: c_upload_def do_report_def c_storeS3_def c_storeHTTP_def Let_def
        split: prod.splits option.splits sum.splits)

text \<open>\<open>execute\<close> reads \<open>verify\<close> at most at the triple \<open>untar\<close> returned and the keys
  directory of the command: two worlds that agree there, and elsewhere but for \<open>verify\<close>,
  give the same run.\<close>

lemma execute_verify_cong:
  assumes agree: "\<And>b tsv sg uname uerr. untar w b = (tsv, sg, uname, uerr) \<Longrightarrow>
                    v uname tsv sg (keysdir c) = verify w uname tsv sg (keysdir c)"
  shows "execute c (w\<lparr>verify := v\<rparr>) u uri devs lg s = execute c w u uri devs lg s"
proof -
  obtain r s2 where f: "(if HasPrefix uri (gostr ''s3://'') then c_fetchS3 else c_fetchHTTP) c w uri lg
        (Printf lg (Fetching uri) s) = (r, s2)"
    by fastforce
  show ?thesis
  proof (cases r)
    case (Inl e)
    then show ?thesis
      unfolding execute_def Let_def fetch_verify_irrelevant f by simp
  next
    case (Inr b)
    obtain tsv sg uname uerr where un: "untar w b = (tsv, sg, uname, uerr)"
      by (cases "untar w b") auto
    show ?thesis
      unfolding execute_def Let_def fetch_verify_irrelevant f Inr
      by (simp add: un agree [OF un] c_report_verify_irrelevant c_upload_verify_irrelevant
            split: sum.splits option.splits prod.splits)
  qed
qed

lemma execute_noverify_ignores_verify:
  assumes "noverify c"
  shows "execute c (w\<lparr>verify := v\<rparr>) u uri devs lg s = execute c w u uri devs lg s"
proof -
  obtain r s2 where f: "(if HasPrefix uri (gostr ''s3://'') then c_fetchS3 else c_fetchHTTP) c w uri lg
        (Printf lg (Fetching uri) s) = (r, s2)"
    by fastforce
  show ?thesis
  proof (cases r)
    case (Inl e)
    then show ?thesis
      unfolding execute_def Let_def fetch_verify_irrelevant f by simp
  next
    case (Inr b)
    obtain tsv sg uname uerr where un: "untar w b = (tsv, sg, uname, uerr)"
      by (cases "untar w b") auto
    show ?thesis
      unfolding execute_def Let_def fetch_verify_irrelevant f Inr
      by (simp add: un assms c_report_verify_irrelevant c_upload_verify_irrelevant
            split: sum.splits option.splits prod.splits)
  qed
qed


lemma execute_verify_at:
  assumes fetch: "fetch_outcome c w uri = Inr b"
    and un: "untar w b = (tsv, sg, uname, uerr)"
    and agree: "v uname tsv sg (keysdir c) = verify w uname tsv sg (keysdir c)"
  shows "execute c (w\<lparr>verify := v\<rparr>) u uri devs lg s = execute c w u uri devs lg s"
proof -
  obtain s2 where f: "(if HasPrefix uri (gostr ''s3://'') then c_fetchS3 else c_fetchHTTP) c w uri lg
        (Printf lg (Fetching uri) s) = (Inr b, s2)"
    using fetch_step [of uri c w lg "Printf lg (Fetching uri) s"] fetch by auto
  show ?thesis
    unfolding execute_def Let_def fetch_verify_irrelevant f
    by (simp add: un agree c_report_verify_irrelevant c_upload_verify_irrelevant
          split: sum.splits option.splits prod.splits)
qed

lemma fetch_p0_verify_irrelevant:
  "(if HasPrefix uri (gostr ''s3://'') then c_fetchS3_p0 else c_fetchHTTP_p0) c (w\<lparr>verify := v\<rparr>) uri lg s
   = (if HasPrefix uri (gostr ''s3://'') then c_fetchS3_p0 else c_fetchHTTP_p0) c w uri lg s"
  by (simp add: c_fetchS3_p0_def c_fetchHTTP_p0_def)

lemma do_report_p0_verify_irrelevant:
  "do_report_p0 (w\<lparr>verify := v\<rparr>) cur l wd lg s = do_report_p0 w cur l wd lg s"
  by (simp add: do_report_p0_def)

lemma execute_p0_verify_at:
  assumes fetch: "fetch_outcome_p0 c w uri = Inr b"
    and un: "untar w b = (tsv, sg, uname, uerr)"
    and agree: "v uname tsv sg (keysdir_p0 c) = verify w uname tsv sg (keysdir_p0 c)"
  shows "execute_p0 c (w\<lparr>verify := v\<rparr>) u uri devs lg s = execute_p0 c w u uri devs lg s"
proof -
  obtain s2 where f: "(if HasPrefix uri (gostr ''s3://'') then c_fetchS3_p0 else c_fetchHTTP_p0) c w uri lg
        (Printf lg (Fetching uri) s) = (Inr b, s2)"
    using fetch_step_p0 [of uri c w lg "Printf lg (Fetching uri) s"] fetch by auto
  show ?thesis
    unfolding execute_p0_def Let_def fetch_p0_verify_irrelevant f
    by (simp add: un agree do_report_p0_verify_irrelevant
          split: sum.splits option.splits prod.splits)
qed

text \<open>When verification passes and the parser rejects the payload that \<open>untar\<close>
  returned, the run ends with the error of the parser.\<close>

lemma execute_parse_fails:
  assumes fetch: "fetch_outcome c w uri = Inr b"
    and un: "untar w b = (tsv, sg, uname, uerr)"
    and ver: "noverify c \<or> verify w uname tsv sg (keysdir c) = None"
    and parse: "ParseTSV w tsv devs = Inl e"
  shows "fst (execute c w u uri devs lg s) = Some e"
proof -
  have verr: "(if noverify c then None else verify w uname tsv sg (keysdir c)) = None"
    using ver by auto
  show ?thesis
    using execute_unfold [OF fetch un, where s = s and u = u and devs = devs and lg = lg]
    by (auto simp: verr parse)
qed

lemma execute_p0_parse_fails:
  assumes fetch: "fetch_outcome_p0 c w uri = Inr b"
    and un: "untar w b = (tsv, sg, uname, uerr)"
    and ver: "noverify_p0 c \<or> verify w uname tsv sg (keysdir_p0 c) = None"
    and parse: "ParseTSV w tsv devs = Inl e"
  shows "fst (execute_p0 c w u uri devs lg s) = Some e"
proof -
  have verr: "(if noverify_p0 c then None else verify w uname tsv sg (keysdir_p0 c)) = None"
    using ver by auto
  show ?thesis
    using execute_p0_unfold [OF fetch un, where s = s and u = u and devs = devs and lg = lg]
    by (auto simp: verr parse)
qed

text \<open>The lines a run logs.\<close>

lemma fetch_step_logged:
  assumes "fetch_outcome c w uri = Inr b"
  shows "logged (snd ((if HasPrefix uri (gostr ''s3://'') then c_fetchS3 else c_fetchHTTP) c w uri lg s1))
         = logged s1 @ map (\<lambda>l. (lg, Foreign l)) (fetch_lines c w uri) @ [(lg, Fetched uri (length b))]"
  using assms
  by (cases "fetchS3 w uri (credentials c) (region c)"; cases "fetchHTTP w uri")
     (auto simp: fetch_outcome_def fetch_lines_def c_fetchS3_def c_fetchHTTP_def effect_defs
           Let_def split: sum.splits if_splits)

lemma c_report_logged:
  "\<exists>r. logged (snd (c_report c w cur l lg s)) = logged s @ r \<and>
       (\<forall>x\<in>set r. fst x = lg \<and> is_later_line (snd x))"
  by (cases "os_Create w (filepath_Join w (workdir c) (timeNow_report w))";
      cases "report w cur l (template c) Stdout";
      cases "report w cur l (template c) (File (filepath_Join w (workdir c) (timeNow_report w)))")
     (simp_all add: c_report_def do_Create_def do_report_def write_sink_def effect_defs Let_def)

lemma c_upload_logged:
  "\<exists>r. logged (snd (c_upload c w cur l lg s)) = logged s @ r \<and>
       (\<forall>x\<in>set r. fst x = lg \<and> is_later_line (snd x))"
  by (auto simp: c_upload_def do_report_def write_sink_def c_storeS3_def c_storeHTTP_def
        effect_defs Let_def split: prod.splits option.splits sum.splits)


text \<open>After the line on the extraction, a run logs lines of the retrieval loop and of
  the report and upload steps only.\<close>

lemma execute_logged:
  assumes fetch: "fetch_outcome c w uri = Inr b"
    and un: "untar w b = (tsv, sg, uname, uerr)"
  shows "\<exists>rest. logged (snd (execute c w u uri devs lg s)) =
                  logged s @ [(lg, Fetching uri)] @
                  map (\<lambda>l. (lg, Foreign l)) (fetch_lines c w uri) @
                  [(lg, Fetched uri (length b)), (lg, Extracted uri (length tsv) (length sg))] @ rest \<and>
               (\<forall>x\<in>set rest. fst x = lg \<and> is_later_line (snd x))"
proof -
  let ?pre = "logged s @ [(lg, Fetching uri)] @
                  map (\<lambda>l. (lg, Foreign l)) (fetch_lines c w uri) @
                  [(lg, Fetched uri (length b)), (lg, Extracted uri (length tsv) (length sg))]"
  obtain s4 where l4: "logged s4 =
                logged (snd ((if HasPrefix uri (gostr ''s3://'') then c_fetchS3 else c_fetchHTTP)
                               c w uri lg (Printf lg (Fetching uri) s))) @
                [(lg, Extracted uri (length tsv) (length sg))]"
    and E: "execute c w u uri devs lg s =
                (case (if noverify c then None else verify w uname tsv sg (keysdir c)) of
                   Some err \<Rightarrow> (Some err, s4)
                 | None \<Rightarrow>
                     (case ParseTSV w tsv devs of
                        Inl err \<Rightarrow> (Some err, called (CallParseTSV tsv) s4)
                      | Inr list \<Rightarrow>
                          (case GetACL w u devs of
                             Inl err \<Rightarrow> (Some err, called CallGetACL (log_retrieved lg list (called (CallParseTSV tsv) s4)))
                           | Inr current \<Rightarrow>
                               (case c_report c w current list lg
                                       (called CallGetACL (log_retrieved lg list (called (CallParseTSV tsv) s4))) of
                                  (Some err, s7) \<Rightarrow> (Some err, s7)
                                | (None, s7) \<Rightarrow>
                                    (if rpt c \<noteq> [] then c_upload c w current list lg s7
                                     else (None, s7))))))"
    using execute_unfold [OF fetch un, where s = s and u = u and devs = devs and lg = lg] by blast
  have s4: "logged s4 = ?pre"
    unfolding l4 fetch_step_logged [OF fetch] by (simp add: Printf_def)
  have goal: ?thesis
    if "logged (snd (execute c w u uri devs lg s)) = ?pre @ r"
      "\<forall>x\<in>set r. fst x = lg \<and> is_later_line (snd x)" for r
    using that by (intro exI [of _ r]) simp
  show ?thesis
  proof (cases "if noverify c then None else verify w uname tsv sg (keysdir c)")
    case (Some e)
    then have "logged (snd (execute c w u uri devs lg s)) = ?pre @ []"
      using E s4 by simp
    then show ?thesis by (rule goal) simp
  next
    case None
    note verified = this
    show ?thesis
    proof (cases "ParseTSV w tsv devs")
      case (Inl e)
      then have "logged (snd (execute c w u uri devs lg s)) = ?pre @ []"
        using E s4 verified by (simp add: called_def)
      then show ?thesis by (rule goal) simp
    next
      case (Inr list)
      note parsed = this
      define s6 where "s6 = called CallGetACL (log_retrieved lg list (called (CallParseTSV tsv) s4))"
      define r0 where "r0 = map (\<lambda>(k, x). (lg, Retrieved k (length x))) list"
      have s6: "logged s6 = ?pre @ r0"
        using s4 by (simp add: s6_def r0_def called_def log_retrieved_logged)
      have r0: "\<forall>x\<in>set r0. fst x = lg \<and> is_later_line (snd x)"
        by (auto simp: r0_def)
      show ?thesis
      proof (cases "GetACL w u devs")
        case (Inl e)
        then have "logged (snd (execute c w u uri devs lg s)) = ?pre @ r0"
          using E s6 verified parsed by (simp add: s6_def)
        then show ?thesis using r0 by (rule goal)
      next
        case (Inr current)
        obtain r1 where r1: "logged (snd (c_report c w current list lg s6)) = logged s6 @ r1"
          "\<forall>x\<in>set r1. fst x = lg \<and> is_later_line (snd x)"
          using c_report_logged by blast
        obtain r2 where r2: "logged (snd (c_upload c w current list lg (snd (c_report c w current list lg s6))))
             = logged (snd (c_report c w current list lg s6)) @ r2"
          "\<forall>x\<in>set r2. fst x = lg \<and> is_later_line (snd x)"
          using c_upload_logged by blast
        have "execute c w u uri devs lg s =
                (case c_report c w current list lg s6 of
                   (Some err, s7) \<Rightarrow> (Some err, s7)
                 | (None, s7) \<Rightarrow> (if rpt c \<noteq> [] then c_upload c w current list lg s7 else (None, s7)))"
          using E verified parsed Inr by (simp add: s6_def)
        then have "logged (snd (execute c w u uri devs lg s)) = logged s6 @ r1 \<or>
                   logged (snd (execute c w u uri devs lg s)) = logged s6 @ r1 @ r2"
          using r1 r2 by (cases "c_report c w current list lg s6") (auto split: option.splits)
        then have "logged (snd (execute c w u uri devs lg s)) = ?pre @ (r0 @ r1) \<or>
                   logged (snd (execute c w u uri devs lg s)) = ?pre @ (r0 @ r1 @ r2)"
          using s6 by simp
        then show ?thesis
        proof
          assume "logged (snd (execute c w u uri devs lg s)) = ?pre @ (r0 @ r1)"
          then show ?thesis by (rule goal) (use r0 r1 in auto)
        next
          assume "logged (snd (execute c w u uri devs lg s)) = ?pre @ (r0 @ r1 @ r2)"
          then show ?thesis by (rule goal) (use r0 r1 r2 in auto)
        qed
      qed
    qed
  qed
qed

subsection \<open>Claims\<close>


text \<open>
  C10. When the URL option of the command is empty or holds white space only, \<open>Execute\<close>
  returns the "requires a URL" error at once: the state is returned as it was, so no URL
  was parsed, no configuration loaded, nothing fetched, unpacked, read from a device or
  reported. This holds in both revisions.
\<close>

theorem Execute_blank_url:
  assumes "\<forall>r\<in>set a. IsSpace r"
  shows "Execute (c\<lparr>acl := a\<rparr>) w s = (Some RequiresURL, s) \<and>
         Execute_p0 (c0\<lparr>url_p0 := a\<rparr>) w s = (Some RequiresURL, s)"
  using TrimSpace_blank [OF assms] by (simp add: Execute_def Execute_p0_def)

theorem Execute_blank_url_witness:
  "IsSpace 0x20 \<and> IsSpace 0x09 \<and> IsSpace 0xA0 \<and>
   Execute (cfg0\<lparr>acl := [0x20, 0x09, 0xA0]\<rparr>) world_ok state0 = (Some RequiresURL, state0) \<and>
   Execute_p0 (cfg0_p0\<lparr>url_p0 := [0x20, 0x09, 0xA0]\<rparr>) world_ok state0 = (Some RequiresURL, state0)"
proof -
  have blank: "\<forall>r\<in>set [0x20, 0x09, 0xA0]. IsSpace r"
    by (simp add: IsSpace_def)
  show ?thesis
    using blank Execute_blank_url [OF blank, of cfg0 world_ok state0 cfg0_p0] by simp
qed

text \<open>
  C1. When verification is enabled and \<open>verify\<close> fails on the triple that \<open>untar\<close>
  returned, \<open>execute\<close> returns that error. The calls made are the fetch, \<open>untar\<close> and
  \<open>verify\<close> and no other: the payload is not parsed, the devices are not read, no
  report is rendered and no file is created; files, standard output and the remote
  store are as before. This holds in both revisions.
\<close>

theorem verify_failure_aborts:
  assumes "untar w b = (tsv, sg, uname, uerr)"
  shows "(\<not> noverify c \<and> fetch_outcome c w uri = Inr b \<and>
          verify w uname tsv sg (keysdir c) = Some e \<longrightarrow>
            (\<exists>s'. execute c w u uri devs lg s = (Some e, s') \<and>
                  calls s' = calls s @ [fetch_call c uri, CallUntar b,
                                        CallVerify uname tsv sg (keysdir c)] \<and>
                  files s' = files s \<and> stdout s' = stdout s \<and> stored s' = stored s)) \<and>
         (\<not> noverify_p0 c0 \<and> fetch_outcome_p0 c0 w uri = Inr b \<and>
          verify w uname tsv sg (keysdir_p0 c0) = Some e \<longrightarrow>
            (\<exists>s'. execute_p0 c0 w u uri devs lg s = (Some e, s') \<and>
                  calls s' = calls s @ [fetch_call_p0 c0 uri, CallUntar b,
                                        CallVerify uname tsv sg (keysdir_p0 c0)] \<and>
                  files s' = files s \<and> stdout s' = stdout s \<and> stored s' = stored s))"
  using execute_verify_fails [OF _ _ assms] execute_p0_verify_fails [OF _ _ assms]
  by blast

theorem verify_failure_aborts_witness:
  "untar world_bad_signature ''archive'' = (''tsv'', ''sig'', [97], None) \<and>
   \<not> noverify cfg0 \<and> fetch_outcome cfg0 world_bad_signature [104] = Inr ''archive'' \<and>
   verify world_bad_signature [97] ''tsv'' ''sig'' (keysdir cfg0) = Some (External ''signature mismatch'') \<and>
   \<not> noverify_p0 cfg0_p0 \<and> fetch_outcome_p0 cfg0_p0 world_bad_signature [104] = Inr ''archive'' \<and>
   verify world_bad_signature [97] ''tsv'' ''sig'' (keysdir_p0 cfg0_p0) = Some (External ''signature mismatch'') \<and>
   fst (execute cfg0 world_bad_signature 0 [104] [1] StdoutLogger state0)
     = Some (External ''signature mismatch'') \<and>
   fst (execute_p0 cfg0_p0 world_bad_signature 0 [104] [1] StdoutLogger state0)
     = Some (External ''signature mismatch'')"
proof -
  have un: "untar world_bad_signature ''archive'' = (''tsv'', ''sig'', [97], None)"
    by (simp add: world_bad_signature_def world_ok_def)
  have hyp: "\<not> noverify cfg0 \<and> fetch_outcome cfg0 world_bad_signature [104] = Inr ''archive'' \<and>
      verify world_bad_signature [97] ''tsv'' ''sig'' (keysdir cfg0) = Some (External ''signature mismatch'')"
    by (simp add: cfg0_def fetch_outcome_def world_bad_signature_def world_ok_def HasPrefix_def gostr_def)
  have hyp0: "\<not> noverify_p0 cfg0_p0 \<and> fetch_outcome_p0 cfg0_p0 world_bad_signature [104] = Inr ''archive'' \<and>
      verify world_bad_signature [97] ''tsv'' ''sig'' (keysdir_p0 cfg0_p0) = Some (External ''signature mismatch'')"
    by (simp add: cfg0_p0_def fetch_outcome_p0_def world_bad_signature_def world_ok_def HasPrefix_def gostr_def)
  show ?thesis
    using un hyp hyp0
      verify_failure_aborts [OF un, of cfg0 "[104]" "External ''signature mismatch''" 0 "[1]"
        StdoutLogger state0 cfg0_p0]
    by auto
qed

text \<open>
  C7. With verification enabled, the call that follows \<open>untar\<close> is \<open>verify\<close>, on the
  payload, signature and signer name exactly as \<open>untar\<close> returned them; every later call
  is no verification, and a later \<open>ParseTSV\<close> call parses that same payload. What
  \<open>verify\<close> returns on that triple decides the run: when it is an error, \<open>execute\<close>
  returns it and the payload is not parsed; when it is nil and the parser rejects that
  same payload, \<open>execute\<close> returns the error of the parser. \<open>verify\<close> is applied to
  nothing else: any other verification that agrees with it on that triple gives the same
  run. So the payload is verified as extracted, and before it is parsed. This holds in
  both revisions.
\<close>

theorem verify_on_extracted_payload_before_parse:
  assumes "untar w b = (tsv, sg, uname, uerr)"
  shows "(\<not> noverify c \<and> fetch_outcome c w uri = Inr b \<longrightarrow>
            (\<exists>rest. calls (snd (execute c w u uri devs lg s)) =
                      calls s @ [fetch_call c uri, CallUntar b,
                                 CallVerify uname tsv sg (keysdir c)] @ rest \<and>
                    (\<forall>k\<in>set rest. \<not> is_verify_call k) \<and>
                    (\<forall>x. CallParseTSV x \<in> set rest \<longrightarrow> x = tsv)) \<and>
            (verify w uname tsv sg (keysdir c) = Some e \<longrightarrow>
               (\<exists>s'. execute c w u uri devs lg s = (Some e, s') \<and>
                     calls s' = calls s @ [fetch_call c uri, CallUntar b,
                                           CallVerify uname tsv sg (keysdir c)])) \<and>
            (verify w uname tsv sg (keysdir c) = None \<and> ParseTSV w tsv devs = Inl e' \<longrightarrow>
               fst (execute c w u uri devs lg s) = Some e') \<and>
            (v uname tsv sg (keysdir c) = verify w uname tsv sg (keysdir c) \<longrightarrow>
               execute c (w\<lparr>verify := v\<rparr>) u uri devs lg s = execute c w u uri devs lg s)) \<and>
         (\<not> noverify_p0 c0 \<and> fetch_outcome_p0 c0 w uri = Inr b \<longrightarrow>
            (\<exists>rest. calls (snd (execute_p0 c0 w u uri devs lg s)) =
                      calls s @ [fetch_call_p0 c0 uri, CallUntar b,
                                 CallVerify uname tsv sg (keysdir_p0 c0)] @ rest \<and>
                    (\<forall>k\<in>set rest. \<not> is_verify_call k) \<and>
                    (\<forall>x. CallParseTSV x \<in> set rest \<longrightarrow> x = tsv)) \<and>
            (verify w uname tsv sg (keysdir_p0 c0) = Some e \<longrightarrow>
               (\<exists>s'. execute_p0 c0 w u uri devs lg s = (Some e, s') \<and>
                     calls s' = calls s @ [fetch_call_p0 c0 uri, CallUntar b,
                                           CallVerify uname tsv sg (keysdir_p0 c0)])) \<and>
            (verify w uname tsv sg (keysdir_p0 c0) = None \<and> ParseTSV w tsv devs = Inl e' \<longrightarrow>
               fst (execute_p0 c0 w u uri devs lg s) = Some e') \<and>
            (v uname tsv sg (keysdir_p0 c0) = verify w uname tsv sg (keysdir_p0 c0) \<longrightarrow>
               execute_p0 c0 (w\<lparr>verify := v\<rparr>) u uri devs lg s = execute_p0 c0 w u uri devs lg s))"
proof (intro conjI impI)
  assume h: "\<not> noverify c \<and> fetch_outcome c w uri = Inr b"
  then show "\<exists>rest. calls (snd (execute c w u uri devs lg s)) =
                      calls s @ [fetch_call c uri, CallUntar b,
                                 CallVerify uname tsv sg (keysdir c)] @ rest \<and>
                    (\<forall>k\<in>set rest. \<not> is_verify_call k) \<and>
                    (\<forall>x. CallParseTSV x \<in> set rest \<longrightarrow> x = tsv)"
    using execute_calls [OF _ assms, of c uri u devs lg s] by simp
  {
    assume "verify w uname tsv sg (keysdir c) = Some e"
    then show "\<exists>s'. execute c w u uri devs lg s = (Some e, s') \<and>
                     calls s' = calls s @ [fetch_call c uri, CallUntar b,
                                           CallVerify uname tsv sg (keysdir c)]"
      using execute_verify_fails [OF _ _ assms, of c uri e u devs lg s] h by blast
  }
  {
    assume "verify w uname tsv sg (keysdir c) = None \<and> ParseTSV w tsv devs = Inl e'"
    then show "fst (execute c w u uri devs lg s) = Some e'"
      using execute_parse_fails [OF _ assms, of c uri devs e' u lg s] h by blast
  }
  {
    assume "v uname tsv sg (keysdir c) = verify w uname tsv sg (keysdir c)"
    then show "execute c (w\<lparr>verify := v\<rparr>) u uri devs lg s = execute c w u uri devs lg s"
      using execute_verify_at [OF _ assms] h by blast
  }
next
  assume h: "\<not> noverify_p0 c0 \<and> fetch_outcome_p0 c0 w uri = Inr b"
  then show "\<exists>rest. calls (snd (execute_p0 c0 w u uri devs lg s)) =
                      calls s @ [fetch_call_p0 c0 uri, CallUntar b,
                                 CallVerify uname tsv sg (keysdir_p0 c0)] @ rest \<and>
                    (\<forall>k\<in>set rest. \<not> is_verify_call k) \<and>
                    (\<forall>x. CallParseTSV x \<in> set rest \<longrightarrow> x = tsv)"
    using execute_p0_calls [OF _ assms, of c0 uri u devs lg s] by simp
  {
    assume "verify w uname tsv sg (keysdir_p0 c0) = Some e"
    then show "\<exists>s'. execute_p0 c0 w u uri devs lg s = (Some e, s') \<and>
                     calls s' = calls s @ [fetch_call_p0 c0 uri, CallUntar b,
                                           CallVerify uname tsv sg (keysdir_p0 c0)]"
      using execute_p0_verify_fails [OF _ _ assms, of c0 uri e u devs lg s] h by blast
  }
  {
    assume "verify w uname tsv sg (keysdir_p0 c0) = None \<and> ParseTSV w tsv devs = Inl e'"
    then show "fst (execute_p0 c0 w u uri devs lg s) = Some e'"
      using execute_p0_parse_fails [OF _ assms, of c0 uri devs e' u lg s] h by blast
  }
  {
    assume "v uname tsv sg (keysdir_p0 c0) = verify w uname tsv sg (keysdir_p0 c0)"
    then show "execute_p0 c0 (w\<lparr>verify := v\<rparr>) u uri devs lg s = execute_p0 c0 w u uri devs lg s"
      using execute_p0_verify_at [OF _ assms] h by blast
  }
qed


theorem verify_on_extracted_payload_before_parse_witness:
  "untar world_bad_signature ''archive'' = (''tsv'', ''sig'', [97], None) \<and>
   untar world_bad_tsv ''archive'' = (''tsv'', ''sig'', [97], None) \<and>
   \<not> noverify cfg0 \<and> \<not> noverify_p0 cfg0_p0 \<and>
   fetch_outcome cfg0 world_bad_signature [104] = Inr ''archive'' \<and>
   fetch_outcome_p0 cfg0_p0 world_bad_signature [104] = Inr ''archive'' \<and>
   fetch_outcome cfg0 world_bad_tsv [104] = Inr ''archive'' \<and>
   fetch_outcome_p0 cfg0_p0 world_bad_tsv [104] = Inr ''archive'' \<and>
   verify world_bad_signature [97] ''tsv'' ''sig'' [107] = Some (External ''signature mismatch'') \<and>
   verify world_bad_tsv [97] ''tsv'' ''sig'' [107] = None \<and>
   ParseTSV world_bad_tsv ''tsv'' [1] = Inl (External ''missing column'') \<and>
   verify_tsv_only [97] ''tsv'' ''sig'' [107] = verify world_bad_tsv [97] ''tsv'' ''sig'' [107] \<and>
   fst (execute cfg0 world_bad_signature 0 [104] [1] StdoutLogger state0)
     = Some (External ''signature mismatch'') \<and>
   fst (execute_p0 cfg0_p0 world_bad_signature 0 [104] [1] StdoutLogger state0)
     = Some (External ''signature mismatch'') \<and>
   fst (execute cfg0 world_bad_tsv 0 [104] [1] StdoutLogger state0)
     = Some (External ''missing column'') \<and>
   fst (execute_p0 cfg0_p0 world_bad_tsv 0 [104] [1] StdoutLogger state0)
     = Some (External ''missing column'') \<and>
   execute cfg0 (world_bad_tsv\<lparr>verify := verify_tsv_only\<rparr>) 0 [104] [1] StdoutLogger state0
     = execute cfg0 world_bad_tsv 0 [104] [1] StdoutLogger state0 \<and>
   execute_p0 cfg0_p0 (world_bad_tsv\<lparr>verify := verify_tsv_only\<rparr>) 0 [104] [1] StdoutLogger state0
     = execute_p0 cfg0_p0 world_bad_tsv 0 [104] [1] StdoutLogger state0 \<and>
   (\<exists>rest. calls (snd (execute cfg0 world_bad_tsv 0 [104] [1] StdoutLogger state0)) =
            [CallFetchHTTP [104], CallUntar ''archive'', CallVerify [97] ''tsv'' ''sig'' [107]] @ rest) \<and>
   (\<exists>rest. calls (snd (execute_p0 cfg0_p0 world_bad_tsv 0 [104] [1] StdoutLogger state0)) =
            [CallFetchHTTP [104], CallUntar ''archive'', CallVerify [97] ''tsv'' ''sig'' [107]] @ rest)"
proof -
  have un1: "untar world_bad_signature ''archive'' = (''tsv'', ''sig'', [97], None)"
    and un2: "untar world_bad_tsv ''archive'' = (''tsv'', ''sig'', [97], None)"
    by (simp_all add: world_bad_signature_def world_bad_tsv_def world_ok_def)
  have nv: "\<not> noverify cfg0" "\<not> noverify_p0 cfg0_p0"
    by (simp_all add: cfg0_def cfg0_p0_def)
  have fetch: "fetch_outcome cfg0 world_bad_signature [104] = Inr ''archive''"
    "fetch_outcome_p0 cfg0_p0 world_bad_signature [104] = Inr ''archive''"
    "fetch_outcome cfg0 world_bad_tsv [104] = Inr ''archive''"
    "fetch_outcome_p0 cfg0_p0 world_bad_tsv [104] = Inr ''archive''"
    by (simp_all add: cfg0_def cfg0_p0_def fetch_outcome_def fetch_outcome_p0_def
          world_bad_signature_def world_bad_tsv_def world_ok_def HasPrefix_def gostr_def)
  have ver: "verify world_bad_signature [97] ''tsv'' ''sig'' [107] = Some (External ''signature mismatch'')"
    "verify world_bad_tsv [97] ''tsv'' ''sig'' [107] = None"
    "ParseTSV world_bad_tsv ''tsv'' [1] = Inl (External ''missing column'')"
    "verify_tsv_only [97] ''tsv'' ''sig'' [107] = verify world_bad_tsv [97] ''tsv'' ''sig'' [107]"
    by (simp_all add: world_bad_signature_def world_bad_tsv_def world_ok_def verify_tsv_only_def)
  have call: "fetch_call cfg0 [104] = CallFetchHTTP [104]" "keysdir cfg0 = [107]"
    "fetch_call_p0 cfg0_p0 [104] = CallFetchHTTP [104]" "keysdir_p0 cfg0_p0 = [107]"
    "calls state0 = []"
    by (simp_all add: fetch_call_def fetch_call_p0_def cfg0_def cfg0_p0_def state0_def
          HasPrefix_def gostr_def)
  note bad_signature =
    verify_on_extracted_payload_before_parse [OF un1, of cfg0 "[104]" 0 "[1]" StdoutLogger state0
      "External ''signature mismatch''" "External ''missing column''" verify_tsv_only cfg0_p0,
      unfolded call]
  note bad_tsv =
    verify_on_extracted_payload_before_parse [OF un2, of cfg0 "[104]" 0 "[1]" StdoutLogger state0
      "External ''signature mismatch''" "External ''missing column''" verify_tsv_only cfg0_p0,
      unfolded call]
  show ?thesis
    using un1 un2 nv fetch ver bad_signature bad_tsv by auto
qed

lemma c_report_to_file:
  assumes "\<not> noreport c"
    and "os_Create w (filepath_Join w (workdir c) (timeNow_report w)) = None"
    and "report w cur l (template c) (File (filepath_Join w (workdir c) (timeNow_report w))) = (out, err)"
  shows "\<exists>s'. c_report c w cur l lg s = (err, s') \<and>
              files s' = (files s)(filepath_Join w (workdir c) (timeNow_report w) \<mapsto> out) \<and>
              stdout s' = stdout s \<and> stored s' = stored s"
  using assms
  by (simp add: c_report_def do_Create_def do_report_def write_sink_def effect_defs Let_def)

lemma c_upload_sign_fails:
  assumes "report w cur l (template c) Builder = (body, None)"
    and "sign w body (keyfile c) = Inl e"
  shows "\<exists>s'. c_upload c w cur l lg s = (Some e, s') \<and>
              files s' = files s \<and> stdout s' = stdout s \<and> stored s' = stored s \<and>
              calls s' = calls s @ [CallReport Builder, CallSign body (keyfile c)]"
  using assms
  by (simp add: c_upload_def do_report_def write_sink_def effect_defs Let_def)

text \<open>
  C8. When the report has been written to its local file and signing the report for
  upload fails, \<open>execute\<close> returns the signing error; the local file holds exactly
  what the report step wrote to it, every other file is as before, and nothing is stored
  remotely.
\<close>

theorem sign_failure_keeps_local_report:
  assumes fetch: "fetch_outcome c w uri = Inr b"
    and un: "untar w b = (tsv, sg, uname, uerr)"
    and ver: "noverify c \<or> verify w uname tsv sg (keysdir c) = None"
    and parse: "ParseTSV w tsv devs = Inr list"
    and get: "GetACL w u devs = Inr current"
    and mode: "\<not> noreport c" "rpt c \<noteq> []"
    and path: "path = filepath_Join w (workdir c) (timeNow_report w)"
    and create: "os_Create w path = None"
    and written: "report w current list (template c) (File path) = (out, None)"
    and rendered: "report w current list (template c) Builder = (body, None)"
    and sign: "sign w body (keyfile c) = Inl e"
  shows "\<exists>s'. execute c w u uri devs lg s = (Some e, s') \<and>
              files s' = (files s)(path \<mapsto> out) \<and> stored s' = stored s"
proof -
  have verr: "(if noverify c then None else verify w uname tsv sg (keysdir c)) = None"
    using ver by auto
  obtain s4 where s4: "files s4 = files s" "stored s4 = stored s"
    and E: "execute c w u uri devs lg s =
              (case c_report c w current list lg
                      (called CallGetACL (log_retrieved lg list (called (CallParseTSV tsv) s4))) of
                 (Some err, s7) \<Rightarrow> (Some err, s7)
               | (None, s7) \<Rightarrow>
                   (if rpt c \<noteq> [] then c_upload c w current list lg s7 else (None, s7)))"
    using execute_unfold [OF fetch un, where s = s and u = u and devs = devs and lg = lg]
    by (auto simp: verr parse get)
  define s6 where "s6 = called CallGetACL (log_retrieved lg list (called (CallParseTSV tsv) s4))"
  have s6: "files s6 = files s" "stored s6 = stored s"
    using s4 by (simp_all add: s6_def called_def log_retrieved_frame)
  obtain s7 where s7: "c_report c w current list lg s6 = (None, s7)"
    "files s7 = (files s6)(path \<mapsto> out)" "stored s7 = stored s6"
    using c_report_to_file [OF mode(1) create [unfolded path] written [unfolded path], of lg s6]
    unfolding path by blast
  obtain s' where s': "c_upload c w current list lg s7 = (Some e, s')"
    "files s' = files s7" "stored s' = stored s7"
    using c_upload_sign_fails [OF rendered sign, of lg s7] by blast
  have "execute c w u uri devs lg s = (Some e, s')"
    using E s7 s' mode by (simp add: s6_def)
  then show ?thesis using s' s7 s6 by simp
qed

theorem sign_failure_keeps_local_report_witness:
  "fetch_outcome (cfg0\<lparr>rpt := [117]\<rparr>) world_bad_key [104] = Inr ''archive'' \<and>
   untar world_bad_key ''archive'' = (''tsv'', ''sig'', [97], None) \<and>
   verify world_bad_key [97] ''tsv'' ''sig'' (keysdir (cfg0\<lparr>rpt := [117]\<rparr>)) = None \<and>
   ParseTSV world_bad_key ''tsv'' [1] = Inr [(1, [''1001''])] \<and>
   GetACL world_bad_key 0 [1] = Inr [(1, [''1001''])] \<and>
   \<not> noreport (cfg0\<lparr>rpt := [117]\<rparr>) \<and> rpt (cfg0\<lparr>rpt := [117]\<rparr>) \<noteq> [] \<and>
   os_Create world_bad_key [119, 47, 114] = None \<and>
   report world_bad_key [(1, [''1001''])] [(1, [''1001''])] (template (cfg0\<lparr>rpt := [117]\<rparr>))
     (File [119, 47, 114]) = (''report'', None) \<and>
   report world_bad_key [(1, [''1001''])] [(1, [''1001''])] (template (cfg0\<lparr>rpt := [117]\<rparr>))
     Builder = (''report'', None) \<and>
   sign world_bad_key ''report'' (keyfile (cfg0\<lparr>rpt := [117]\<rparr>)) = Inl (External ''invalid private key'') \<and>
   (\<exists>s'. execute (cfg0\<lparr>rpt := [117]\<rparr>) world_bad_key 0 [104] [1] StdoutLogger state0
            = (Some (External ''invalid private key''), s') \<and>
         files s' = (files state0)([119, 47, 114] \<mapsto> ''report'') \<and> stored s' = stored state0)"
proof -
  let ?c = "cfg0\<lparr>rpt := [117]\<rparr>"
  have fetch: "fetch_outcome ?c world_bad_key [104] = Inr ''archive''"
    by (simp add: cfg0_def fetch_outcome_def world_bad_key_def world_ok_def HasPrefix_def gostr_def)
  have un: "untar world_bad_key ''archive'' = (''tsv'', ''sig'', [97], None)"
    by (simp add: world_bad_key_def world_ok_def)
  have ver: "verify world_bad_key [97] ''tsv'' ''sig'' (keysdir ?c) = None"
    by (simp add: world_bad_key_def world_ok_def)
  have parse: "ParseTSV world_bad_key ''tsv'' [1] = Inr [(1, [''1001''])]"
    and get: "GetACL world_bad_key 0 [1] = Inr [(1, [''1001''])]"
    by (simp_all add: world_bad_key_def world_ok_def)
  have mode: "\<not> noreport ?c" "rpt ?c \<noteq> []"
    by (simp_all add: cfg0_def)
  have path: "[119, 47, 114] = filepath_Join world_bad_key (workdir ?c) (timeNow_report world_bad_key)"
    by (simp add: cfg0_def world_bad_key_def world_ok_def)
  have create: "os_Create world_bad_key [119, 47, 114] = None"
    by (simp add: world_bad_key_def world_ok_def)
  have written: "report world_bad_key [(1, [''1001''])] [(1, [''1001''])] (template ?c) (File [119, 47, 114])
                   = (''report'', None)"
    and rendered: "report world_bad_key [(1, [''1001''])] [(1, [''1001''])] (template ?c) Builder
                   = (''report'', None)"
    by (simp_all add: world_bad_key_def world_ok_def)
  have sign: "sign world_bad_key ''report'' (keyfile ?c) = Inl (External ''invalid private key'')"
    by (simp add: world_bad_key_def world_ok_def)
  show ?thesis
    using fetch un ver parse get mode create written rendered sign
      sign_failure_keeps_local_report [OF fetch un disjI2 [OF ver] parse get mode path create
        written rendered sign, of StdoutLogger state0]
    by simp
qed



lemma FlagSet_noverify: "noverify (FlagSet fl c) = noverify c"
  unfolding FlagSet_def
proof (induction fl arbitrary: c)
  case Nil
  then show ?case by simp
next
  case (Cons f fl)
  have "noverify (set_flag f c) = noverify c" by (cases f) simp_all
  with Cons show ?case by simp
qed

text \<open>
  C9 (amended). In a run that has fetched the archive, \<open>execute\<close> applies \<open>verify\<close> if and
  only if \<open>noverify\<close> is not set: when it is not set and \<open>verify\<close> fails on what
  \<open>untar\<close> returned, \<open>execute\<close> returns that error; when it is set, \<open>verify\<close> has no
  part in the run, whatever it would return. The option is false in the defaults of the
  command and no command-line flag changes it, so verification is performed by default.
  The bypass is not logged: after the line on the extraction the run logs nothing but
  the lines of the retrieval loop and of the report and upload steps.
\<close>

theorem verify_skipped_iff_noverify:
  assumes fetch: "fetch_outcome c w uri = Inr b"
    and un: "untar w b = (tsv, sg, uname, uerr)"
  shows "((\<exists>k\<in>set (drop (length (calls s)) (calls (snd (execute c w u uri devs lg s)))).
             is_verify_call k) \<longleftrightarrow> \<not> noverify c) \<and>
         (\<not> noverify c \<and> verify w uname tsv sg (keysdir c) = Some e \<longrightarrow>
            fst (execute c w u uri devs lg s) = Some e) \<and>
         (noverify c \<longrightarrow>
            execute c (w\<lparr>verify := v\<rparr>) u uri devs lg s = execute c w u uri devs lg s) \<and>
         \<not> noverify (COMPARE_ACL d) \<and>
         \<not> noverify (FlagSet fl (COMPARE_ACL d)) \<and>
         (\<exists>rest. logged (snd (execute c w u uri devs lg s)) =
                   logged s @ [(lg, Fetching uri)] @
                   map (\<lambda>l. (lg, Foreign l)) (fetch_lines c w uri) @
                   [(lg, Fetched uri (length b)), (lg, Extracted uri (length tsv) (length sg))] @ rest \<and>
                 (\<forall>x\<in>set rest. fst x = lg \<and> is_later_line (snd x)))"
proof -
  obtain rest where rest:
    "calls (snd (execute c w u uri devs lg s)) =
       calls s @ [fetch_call c uri, CallUntar b] @
       (if noverify c then [] else [CallVerify uname tsv sg (keysdir c)]) @ rest"
    "\<forall>k\<in>set rest. \<not> is_verify_call k"
    using execute_calls [OF fetch un, of u devs lg s] by blast
  have "fetch_call c uri = CallFetchHTTP uri \<or>
        fetch_call c uri = CallFetchS3 uri (credentials c) (region c)"
    by (simp add: fetch_call_def)
  then have nofetch: "\<not> is_verify_call (fetch_call c uri)" by auto
  have called: "(\<exists>k\<in>set (drop (length (calls s)) (calls (snd (execute c w u uri devs lg s)))).
             is_verify_call k) \<longleftrightarrow> \<not> noverify c"
    unfolding rest(1) using rest(2) nofetch by auto
  have fails: "fst (execute c w u uri devs lg s) = Some e"
    if "\<not> noverify c" "verify w uname tsv sg (keysdir c) = Some e"
    using execute_verify_fails [OF that(1) fetch un that(2), of u devs lg s] by auto
  have skipped: "execute c (w\<lparr>verify := v\<rparr>) u uri devs lg s = execute c w u uri devs lg s"
    if "noverify c"
    using that by (rule execute_noverify_ignores_verify)
  have default: "\<not> noverify (COMPARE_ACL d)" "\<not> noverify (FlagSet fl (COMPARE_ACL d))"
    by (simp_all add: FlagSet_noverify COMPARE_ACL_def)
  show ?thesis
    using called fails skipped default execute_logged [OF fetch un, of u devs lg s] by blast
qed

theorem verify_skipped_iff_noverify_witness:
  "fetch_outcome cfg0 world_bad_signature [104] = Inr ''archive'' \<and>
   fetch_outcome (cfg0\<lparr>noverify := True\<rparr>) world_bad_signature [104] = Inr ''archive'' \<and>
   untar world_bad_signature ''archive'' = (''tsv'', ''sig'', [97], None) \<and>
   \<not> noverify cfg0 \<and>
   verify world_bad_signature [97] ''tsv'' ''sig'' (keysdir cfg0) = Some (External ''signature mismatch'') \<and>
   fst (execute cfg0 world_bad_signature 0 [104] [1] StdoutLogger state0)
     = Some (External ''signature mismatch'') \<and>
   (\<exists>k\<in>set (calls (snd (execute cfg0 world_bad_signature 0 [104] [1] StdoutLogger state0))).
      is_verify_call k) \<and>
   noverify (cfg0\<lparr>noverify := True\<rparr>) \<and>
   execute (cfg0\<lparr>noverify := True\<rparr>) (world_bad_signature\<lparr>verify := verify_tsv_only\<rparr>)
       0 [104] [1] StdoutLogger state0
     = execute (cfg0\<lparr>noverify := True\<rparr>) world_bad_signature 0 [104] [1] StdoutLogger state0 \<and>
   \<not> (\<exists>k\<in>set (calls (snd (execute (cfg0\<lparr>noverify := True\<rparr>) world_bad_signature
                               0 [104] [1] StdoutLogger state0))).
      is_verify_call k)"
proof -
  have fetch: "fetch_outcome cfg0 world_bad_signature [104] = Inr ''archive''"
    and fetch': "fetch_outcome (cfg0\<lparr>noverify := True\<rparr>) world_bad_signature [104] = Inr ''archive''"
    by (simp_all add: cfg0_def fetch_outcome_def world_bad_signature_def world_ok_def
          HasPrefix_def gostr_def)
  have un: "untar world_bad_signature ''archive'' = (''tsv'', ''sig'', [97], None)"
    by (simp add: world_bad_signature_def world_ok_def)
  have ver: "verify world_bad_signature [97] ''tsv'' ''sig'' (keysdir cfg0)
               = Some (External ''signature mismatch'')"
    by (simp add: world_bad_signature_def world_ok_def)
  have nv: "\<not> noverify cfg0" "noverify (cfg0\<lparr>noverify := True\<rparr>)" and st: "calls state0 = []"
    by (simp_all add: cfg0_def state0_def)
  note enabled =
    verify_skipped_iff_noverify [OF fetch un, of state0 0 "[1]" StdoutLogger
      "External ''signature mismatch''" verify_tsv_only]
  note bypassed =
    verify_skipped_iff_noverify [OF fetch' un, of state0 0 "[1]" StdoutLogger
      "External ''signature mismatch''" verify_tsv_only]
  show ?thesis
    using fetch fetch' un ver nv enabled bypassed by (simp add: st)
qed

text \<open>
  C9 as stated fails: with \<open>noverify\<close> set and a signature that \<open>verify\<close> would reject,
  the run goes through and returns no error, \<open>verify\<close> is not called, and the lines
  logged are the six below, none of them about the bypass.
\<close>

theorem bypass_is_not_logged_counterexample:
  "noverify (cfg0\<lparr>noverify := True\<rparr>) \<and>
   verify world_bad_signature [97] ''tsv'' ''sig'' [107] = Some (External ''signature mismatch'') \<and>
   fst (execute (cfg0\<lparr>noverify := True\<rparr>) world_bad_signature 0 [104] [1] StdoutLogger state0) = None \<and>
   calls (snd (execute (cfg0\<lparr>noverify := True\<rparr>) world_bad_signature 0 [104] [1] StdoutLogger state0)) =
     [CallFetchHTTP [104], CallUntar ''archive'', CallParseTSV ''tsv'', CallGetACL,
      CallCreate [119, 47, 114], CallReport (File [119, 47, 114])] \<and>
   logged (snd (execute (cfg0\<lparr>noverify := True\<rparr>) world_bad_signature 0 [104] [1] StdoutLogger state0)) =
     [(StdoutLogger, Fetching [104]), (StdoutLogger, Fetched [104] 7),
      (StdoutLogger, Extracted [104] 3 3), (StdoutLogger, Retrieved 1 1),
      (StdoutLogger, Generating), (StdoutLogger, Writing [119, 47, 114])]"
  by (simp add: execute_def cfg0_def world_bad_signature_def world_ok_def state0_def HasPrefix_def
        gostr_def c_fetchHTTP_def c_report_def do_Create_def do_report_def write_sink_def
        effect_defs Let_def)

text \<open>
  C3. The claim fails on the code: the error of \<open>untar\<close> is not read. With an archive
  on which \<open>untar\<close> fails, the default configuration goes on to call \<open>verify\<close> on the
  partial payload and returns the error of \<open>verify\<close>; with \<open>noverify\<close> set it parses the
  partial payload, writes a report and returns no error. The earlier revision does the
  same.
\<close>

theorem untar_error_is_dropped:
  "untar world_bad_archive_signature ''archive'' = (''ts'', [], [], Some (External ''malformed archive'')) \<and>
   fst (execute cfg0 world_bad_archive_signature 0 [104] [1] StdoutLogger state0)
     = Some (External ''signature mismatch'') \<and>
   calls (snd (execute cfg0 world_bad_archive_signature 0 [104] [1] StdoutLogger state0))
     = [CallFetchHTTP [104], CallUntar ''archive'', CallVerify [] ''ts'' [] [107]] \<and>
   fst (execute_p0 cfg0_p0 world_bad_archive_signature 0 [104] [1] StdoutLogger state0)
     = Some (External ''signature mismatch'') \<and>
   untar world_bad_archive ''archive'' = (''ts'', [], [], Some (External ''malformed archive'')) \<and>
   fst (execute (cfg0\<lparr>noverify := True\<rparr>) world_bad_archive 0 [104] [1] StdoutLogger state0) = None \<and>
   calls (snd (execute (cfg0\<lparr>noverify := True\<rparr>) world_bad_archive 0 [104] [1] StdoutLogger state0))
     = [CallFetchHTTP [104], CallUntar ''archive'', CallParseTSV ''ts'', CallGetACL,
        CallCreate [119, 47, 114], CallReport (File [119, 47, 114])]"
  by (simp add: execute_def execute_p0_def cfg0_def cfg0_p0_def world_bad_archive_signature_def
        world_bad_archive_def world_ok_def state0_def HasPrefix_def gostr_def
        c_fetchHTTP_def c_fetchHTTP_p0_def c_report_def do_Create_def do_report_def write_sink_def
        effect_defs Let_def)

text \<open>With \<open>noreport\<close> set, the report step returns no error whatever \<open>report\<close> returned.\<close>

lemma c_report_noreport: "noreport c \<Longrightarrow> fst (c_report c w cur l lg s) = None"
  by (simp add: c_report_def Let_def split: prod.splits)

text \<open>
  C4. The claim fails on the code in the \<open>noreport\<close> mode: when writing the report to
  standard output fails, \<open>execute\<close> returns no error.
\<close>

theorem report_error_is_dropped_on_stdout:
  "report world_bad_stdout [(1, [''1001''])] [(1, [''1001''])] (template cfg0) Stdout
     = ([], Some (External ''write failed'')) \<and>
   fst (execute (cfg0\<lparr>noreport := True\<rparr>) world_bad_stdout 0 [104] [1] StdoutLogger state0) = None \<and>
   calls (snd (execute (cfg0\<lparr>noreport := True\<rparr>) world_bad_stdout 0 [104] [1] StdoutLogger state0))
     = [CallFetchHTTP [104], CallUntar ''archive'', CallVerify [97] ''tsv'' ''sig'' [107],
        CallParseTSV ''tsv'', CallGetACL, CallReport Stdout]"
  by (simp add: execute_def cfg0_def world_bad_stdout_def world_ok_def state0_def HasPrefix_def
        gostr_def c_fetchHTTP_def c_report_def do_report_def write_sink_def effect_defs Let_def)

text \<open>The earlier revision never returns nil once the fetch is done with.\<close>

lemma execute_p0_never_nil: "fst (execute_p0 c w u uri devs lg s) \<noteq> None"
  by (simp add: execute_p0_def Let_def split: prod.splits sum.splits option.splits if_splits)

text \<open>The later revision returns nil when every step succeeds and no upload is asked for.\<close>

lemma execute_success_nil:
  assumes fetch: "fetch_outcome c w uri = Inr b"
    and un: "untar w b = (tsv, sg, uname, uerr)"
    and ver: "noverify c \<or> verify w uname tsv sg (keysdir c) = None"
    and parse: "ParseTSV w tsv devs = Inr list"
    and get: "GetACL w u devs = Inr current"
    and rep: "\<And>s6. fst (c_report c w current list lg s6) = None"
    and noupload: "rpt c = []"
  shows "fst (execute c w u uri devs lg s) = None"
proof -
  have verr: "(if noverify c then None else verify w uname tsv sg (keysdir c)) = None"
    using ver by auto
  obtain s4 where
    E: "execute c w u uri devs lg s =
              (case c_report c w current list lg
                      (called CallGetACL (log_retrieved lg list (called (CallParseTSV tsv) s4))) of
                 (Some err, s7) \<Rightarrow> (Some err, s7)
               | (None, s7) \<Rightarrow>
                   (if rpt c \<noteq> [] then c_upload c w current list lg s7 else (None, s7)))"
    using execute_unfold [OF fetch un, where s = s and u = u and devs = devs and lg = lg]
    by (auto simp: verr parse get)
  show ?thesis
    unfolding E
    using rep [of "called CallGetACL (log_retrieved lg list (called (CallParseTSV tsv) s4))"] noupload
    by (auto split: prod.splits option.splits)
qed

text \<open>
  C5. The claim fails on the earlier revision: in a run in which every step succeeds,
  its \<open>execute\<close> returns the error "OOOPS" after reporting. The later revision returns
  no error on the same run.
\<close>

theorem execute_p0_fails_after_reporting:
  "fst (execute_p0 cfg0_p0 world_ok 0 [104] [1] StdoutLogger state0) = Some OOOPS \<and>
   calls (snd (execute_p0 cfg0_p0 world_ok 0 [104] [1] StdoutLogger state0))
     = [CallFetchHTTP [104], CallUntar ''archive'', CallVerify [97] ''tsv'' ''sig'' [107],
        CallParseTSV ''tsv'', CallGetACL, CallReport_p0 [119]] \<and>
   fst (execute cfg0 world_ok 0 [104] [1] StdoutLogger state0) = None"
  by (simp add: execute_def execute_p0_def cfg0_def cfg0_p0_def world_ok_def state0_def
        HasPrefix_def gostr_def c_fetchHTTP_def c_fetchHTTP_p0_def c_report_def do_Create_def
        do_report_def do_report_p0_def write_sink_def effect_defs Let_def)

text \<open>
  C6. The claim fails on the template for the section "Incorrect:": the template emits it
  when \<open>Unchanged\<close> is not empty. A device with an updated card and no unchanged card
  renders without the section; a device with an unchanged card and no updated card
  renders the section, empty.
\<close>

theorem incorrect_section_follows_unchanged:
  "render_device id 1 \<lparr>Unchanged = [], Updated = [''1001''], Added = [], Deleted = []\<rparr>
     = ''\<newline>  DEVICE 1'' \<and>
   render_device id 1 \<lparr>Unchanged = [''1002''], Updated = [], Added = [], Deleted = []\<rparr>
     = ''\<newline>  DEVICE 1\<newline>    Incorrect:  '' \<and>
   render id ''T'' [(1, \<lparr>Unchanged = [], Updated = [''1001''], Added = [''1003''], Deleted = []\<rparr>)]
     = ''ACL DIFF REPORT T\<newline>\<newline>  DEVICE 1\<newline>    Missing:    1003\<newline>                \<newline>''"
  by (simp add: render_def render_device_def range_cards_def decimal.simps)

subsection \<open>The diff engine partitions the record keys\<close>


lemma set_map_filter_conv:
  "set (List.map_filter f xs) = {y. \<exists>x\<in>set xs. f x = Some y}"
  by (induction xs) (auto split: option.splits)

text \<open>A classification built by filtering keys holds the keys that pass the filter.\<close>

lemma keys_map_filter:
  assumes "\<And>k y. f k = Some y \<Longrightarrow> fst y = k"
  shows "fst ` set (List.map_filter f ks) = {k \<in> set ks. f k \<noteq> None}"
proof -
  have "fst ` set (List.map_filter f ks) = fst ` {y. \<exists>x\<in>set ks. f x = Some y}"
    by (simp add: set_map_filter_conv)
  also have "\<dots> = {k \<in> set ks. f k \<noteq> None}"
    using assms by force
  finally show ?thesis .
qed

lemma in_record_keys: "k \<in> set (record_keys rs) \<longleftrightarrow> map_of rs k \<noteq> None"
  by (simp add: record_keys_def map_of_eq_None_iff)

lemma map_of_None_iff: "map_of rs k = None \<longleftrightarrow> k \<notin> fst ` set rs"
  by (simp add: map_of_eq_None_iff)

lemma keys_unchanged_diff_device:
  "keys_unchanged (diff_device cur auth) =
     {k. \<exists>x. map_of cur k = Some x \<and> map_of auth k = Some x}"
proof -
  let ?f = "\<lambda>k. case (map_of cur k, map_of auth k) of
                   (Some x, Some y) \<Rightarrow> if x = y then Some (k, y) else None
                 | _ \<Rightarrow> None"
  have "keys_unchanged (diff_device cur auth) = {k \<in> set (record_keys cur). ?f k \<noteq> None}"
    unfolding keys_unchanged_def diff_device_def Let_def
    by (simp only: DeviceDiff.select_convs, rule keys_map_filter)
       (auto split: option.splits if_splits)
  also have "\<dots> = {k. \<exists>x. map_of cur k = Some x \<and> map_of auth k = Some x}"
    by (auto simp: in_record_keys split: option.splits)
  finally show ?thesis .
qed

lemma keys_updated_diff_device:
  "keys_updated (diff_device cur auth) =
     {k. \<exists>x y. map_of cur k = Some x \<and> map_of auth k = Some y \<and> x \<noteq> y}"
proof -
  let ?f = "\<lambda>k. case (map_of cur k, map_of auth k) of
                   (Some x, Some y) \<Rightarrow> if x = y then None else Some (k, x, y)
                 | _ \<Rightarrow> None"
  have "keys_updated (diff_device cur auth) = {k \<in> set (record_keys cur). ?f k \<noteq> None}"
    unfolding keys_updated_def diff_device_def Let_def
    by (simp only: DeviceDiff.select_convs, rule keys_map_filter)
       (auto split: option.splits if_splits)
  also have "\<dots> = {k. \<exists>x y. map_of cur k = Some x \<and> map_of auth k = Some y \<and> x \<noteq> y}"
    by (auto simp: in_record_keys split: option.splits)
  finally show ?thesis .
qed

lemma keys_added_diff_device:
  "keys_added (diff_device cur auth) = {k. map_of cur k = None \<and> map_of auth k \<noteq> None}"
proof -
  let ?f = "\<lambda>k. case (map_of cur k, map_of auth k) of
                   (None, Some y) \<Rightarrow> Some (k, y)
                 | _ \<Rightarrow> None"
  have "keys_added (diff_device cur auth) = {k \<in> set (record_keys auth). ?f k \<noteq> None}"
    unfolding keys_added_def diff_device_def Let_def
    by (simp only: DeviceDiff.select_convs, rule keys_map_filter)
       (auto split: option.splits if_splits)
  also have "\<dots> = {k. map_of cur k = None \<and> map_of auth k \<noteq> None}"
    by (auto simp: in_record_keys split: option.splits)
  finally show ?thesis .
qed

lemma keys_deleted_diff_device:
  "keys_deleted (diff_device cur auth) = {k. map_of cur k \<noteq> None \<and> map_of auth k = None}"
proof -
  let ?f = "\<lambda>k. case (map_of cur k, map_of auth k) of
                   (Some x, None) \<Rightarrow> Some (k, x)
                 | _ \<Rightarrow> None"
  have "keys_deleted (diff_device cur auth) = {k \<in> set (record_keys cur). ?f k \<noteq> None}"
    unfolding keys_deleted_def diff_device_def Let_def
    by (simp only: DeviceDiff.select_convs, rule keys_map_filter)
       (auto split: option.splits if_splits)
  also have "\<dots> = {k. map_of cur k \<noteq> None \<and> map_of auth k = None}"
    by (auto simp: in_record_keys split: option.splits)
  finally show ?thesis .
qed

lemmas keys_diff_device =
  keys_unchanged_diff_device keys_updated_diff_device keys_added_diff_device keys_deleted_diff_device

lemma map_of_tabulate:
  "map_of (map (\<lambda>k. (k, f k)) xs) k = (if k \<in> set xs then Some (f k) else None)"
  by (induction xs) simp_all

lemma map_of_diff:
  "map_of (diff current authoritative) dev =
     (if dev \<in> fst ` set current \<union> fst ` set authoritative
      then Some (diff_device (records_of current dev) (records_of authoritative dev)) else None)"
  by (simp add: diff_def device_ids_def map_of_tabulate)

text \<open>
  C2. For every pair of ACLs and every device in either of them, the diff has an entry
  for the device whose four classifications are pairwise disjoint in their record keys
  and together hold exactly the record keys of the device on both sides.
\<close>

theorem diff_partitions_keys:
  assumes "dev \<in> fst ` set current \<union> fst ` set authoritative"
  shows "\<exists>d. map_of (diff current authoritative) dev = Some d \<and>
             keys_unchanged d \<inter> keys_updated d = {} \<and>
             keys_unchanged d \<inter> keys_added d = {} \<and>
             keys_unchanged d \<inter> keys_deleted d = {} \<and>
             keys_updated d \<inter> keys_added d = {} \<and>
             keys_updated d \<inter> keys_deleted d = {} \<and>
             keys_added d \<inter> keys_deleted d = {} \<and>
             keys_unchanged d \<union> keys_updated d \<union> keys_added d \<union> keys_deleted d =
               fst ` set (records_of current dev) \<union> fst ` set (records_of authoritative dev)"
proof -
  let ?cur = "records_of current dev" and ?auth = "records_of authoritative dev"
  let ?d = "diff_device ?cur ?auth"
  have entry: "map_of (diff current authoritative) dev = Some ?d"
    using assms by (simp add: map_of_diff)
  have disjoint: "keys_unchanged ?d \<inter> keys_updated ?d = {}"
    "keys_unchanged ?d \<inter> keys_added ?d = {}"
    "keys_unchanged ?d \<inter> keys_deleted ?d = {}"
    "keys_updated ?d \<inter> keys_added ?d = {}"
    "keys_updated ?d \<inter> keys_deleted ?d = {}"
    "keys_added ?d \<inter> keys_deleted ?d = {}"
    by (auto simp: keys_diff_device)
  have dom: "fst ` set rs = {k. map_of rs k \<noteq> None}" for rs :: "('b \<times> 'c) list"
    by (auto simp: map_of_None_iff)
  have cover: "keys_unchanged ?d \<union> keys_updated ?d \<union> keys_added ?d \<union> keys_deleted ?d =
               fst ` set ?cur \<union> fst ` set ?auth"
    unfolding keys_diff_device dom by auto
  show ?thesis
    using entry disjoint cover by blast
qed

theorem diff_partitions_keys_witness:
  "(1::nat) \<in> fst ` set [(1, [(1001::nat, ''doorB''), (1002, ''doorA'')])] \<union>
               fst ` set [(1, [(1001::nat, ''doorA'')])] \<and>
   map_of (diff [(1::nat, [(1001::nat, ''doorB''), (1002, ''doorA'')])] [(1, [(1001, ''doorA'')])]) 1 =
     Some \<lparr>unchanged = [], updated = [(1001, ''doorB'', ''doorA'')], added = [],
            deleted = [(1002, ''doorA'')]\<rparr> \<and>
   (\<exists>d. map_of (diff [(1::nat, [(1001::nat, ''doorB''), (1002, ''doorA'')])] [(1, [(1001, ''doorA'')])]) 1
           = Some d \<and>
        keys_unchanged d \<union> keys_updated d \<union> keys_added d \<union> keys_deleted d = {1001, 1002})"
proof -
  have dev: "(1::nat) \<in> fst ` set [(1, [(1001::nat, ''doorB''), (1002, ''doorA'')])] \<union>
               fst ` set [(1, [(1001::nat, ''doorA'')])]"
    by simp
  have val: "map_of (diff [(1::nat, [(1001::nat, ''doorB''), (1002, ''doorA'')])] [(1, [(1001, ''doorA'')])]) 1 =
     Some \<lparr>unchanged = [], updated = [(1001, ''doorB'', ''doorA'')], added = [],
            deleted = [(1002, ''doorA'')]\<rparr>"
    by (simp add: diff_def device_ids_def records_of_def diff_device_def record_keys_def)
  have recs: "fst ` set (records_of [(1::nat, [(1001::nat, ''doorB''), (1002, ''doorA'')])] 1) \<union>
              fst ` set (records_of [(1::nat, [(1001::nat, ''doorA'')])] 1) = {1001, 1002}"
    by (auto simp: records_of_def)
  show ?thesis
    using dev val diff_partitions_keys [OF dev] unfolding recs by blast
qed

end
